theory Spec2Isabelle
  imports Complex_Main
begin

section \<open>The coupling layer of linkage.py\<close>

text \<open>
  A shallow embedding of the class \<open>LinkageModel\<close> of
  \<^verbatim>\<open>linkagemodel/linkage.py\<close>: the constructor, \<open>_startup\<close>, the loop of
  \<open>run_for_years\<close>, the two displacement injectors, \<open>_determine_particle_state\<close>
  and \<open>_update_material_types\<close>.

  Conventions.
  \<^item> In the embedding of the class, Python floats are read as exact real numbers:
    rounding is not modelled there, and a NaN is modelled only where the source can
    produce one by itself (the fill value of \<open>griddata\<close>, written \<open>None\<close>). The
    arithmetic of the clock and of the checkpoint boundary is read a second time in
    IEEE double arithmetic (\<open>bookkeeping_turn\<close> with \<open>double\<close>), since what it
    guarantees depends on the rounding.
  \<^item> A raised exception is the left summand \<open>Inl (e, s)\<close>: the error together
    with the object as the exception leaves it, since Python does not roll back.
  \<^item> Underworld, Badlands, scipy and the two user callbacks are not part of the file.
    They are the fields of the record \<open>externals\<close>. A callback may read the whole
    object; what it may change is the Underworld state and a hidden state \<open>world\<close>.
  \<^item> The six members that \<open>_startup\<close> compares with \<open>None\<close> are present by
    typing, so these six assertions have no failing branch here; every other assertion
    and every index error of the modelled functions is a branch.
\<close>

type_synonym vec2 = "real \<times> real"
type_synonym vec3 = "real \<times> real \<times> real"

datatype error =
    AssertionError_model_started
  | AssertionError_domain "real \<times> real \<times> real \<times> real" "real \<times> real \<times> real \<times> real"
  | AssertionError_dt real real
  | IndexError
  | ValueError
  | TypeError

text \<open>The members of the Underworld side that the file reads or writes:
  \<open>mesh.minCoord\<close>, \<open>mesh.maxCoord\<close>, \<open>velocity_field\<close> (evaluated at points),
  \<open>swarm.particleCoordinates.data\<close> and \<open>material_index.data\<close>.\<close>

record underworld =
  minCoord :: vec3
  maxCoord :: vec3
  velocity_field :: "vec3 \<Rightarrow> vec3"
  swarm :: "vec3 list"
  material_index :: "int list"

text \<open>The members of the Badlands model that the file reads or writes:
  \<open>recGrid\<close> (\<open>rectX\<close>, \<open>rectY\<close>, \<open>rectZ\<close>, \<open>rnx\<close>, \<open>rny\<close>, \<open>resEdges\<close>,
  \<open>tinMesh['vertices']\<close>), \<open>elevation\<close>, \<open>input\<close> (\<open>Afactor\<close>, \<open>disp3d\<close>,
  \<open>region\<close>, \<open>tDisplay\<close>) and \<open>force\<close> (\<open>next_display\<close>, \<open>merge3d\<close>,
  \<open>T_disp\<close>, \<open>injected_disps\<close>). A row of \<open>T_disp\<close> is a pair of time bounds.\<close>

record badlands =
  rectX :: "real list"
  rectY :: "real list"
  rectZ :: "real list"
  rnx :: nat
  rny :: nat
  resEdges :: real
  vertices :: "vec2 list"
  elevation :: "real list"
  Afactor :: real
  disp3d :: bool
  region :: int
  tDisplay :: real
  next_display :: real
  merge3d :: real
  T_disp :: "(real \<times> real) list"
  injected_disps :: "vec3 list"

text \<open>The object itself. \<open>material_map\<close> is the two-element list of the source, as
  a pair (air identifiers, sediment identifiers). \<open>checkpoints\<close> is the trace of the
  calls of \<open>checkpoint_function\<close>: the index and the time of each call, oldest first.\<close>

record 'w linkage =
  uw :: underworld
  badlands_model :: badlands
  world :: 'w
  checkpoint_interval :: real
  material_map :: "int list \<times> int list"
  time_years :: real
  model_started :: bool
  disp_inserted :: bool
  checkpoint_number :: nat
  next_checkpoint_years :: "real option"
  disable_material_changes :: bool
  surface_tracers :: "vec3 list"
  checkpoints :: "(nat \<times> real) list"

record 'w externals =
  update_function :: "'w linkage \<Rightarrow> real \<Rightarrow> real \<times> underworld \<times> 'w"
  checkpoint_function :: "'w linkage \<Rightarrow> nat \<Rightarrow> real \<Rightarrow> 'w"
  integrate :: "(vec3 \<Rightarrow> vec3) \<Rightarrow> real \<Rightarrow> vec3 list \<Rightarrow> vec3 list"
  run_to_time :: "badlands \<Rightarrow> 'w \<Rightarrow> real \<Rightarrow> vec2 list \<times> real list \<times> 'w"
  griddata :: "vec2 list \<Rightarrow> real list \<Rightarrow> vec2 \<Rightarrow> real option"
  gaussian_filter :: "real list list \<Rightarrow> real \<Rightarrow> real list list"

definition SECONDS_PER_YEAR :: real where
  "SECONDS_PER_YEAR = 365 * 24 * 60 * 60"

subsection \<open>Classification of the particles\<close>

text \<open>\<open>volume[:, 2] < interpolate_z\<close>: a comparison with NaN is false.\<close>

definition below :: "real \<Rightarrow> real option \<Rightarrow> bool" where
  "below z iz = (case iz of None \<Rightarrow> False | Some e \<Rightarrow> z < e)"

definition determine_particle_state :: "'w externals \<Rightarrow> 'w linkage \<Rightarrow> bool list" where
  "determine_particle_state ext s =
     (let known_xy = vertices (badlands_model s);
          known_z = elevation (badlands_model s);
          volume = swarm (uw s);
          interpolate_xy = map (\<lambda>(x, y, z). (x, y)) volume;
          interpolate_z = map (griddata ext known_xy known_z) interpolate_xy;
          flags = map2 below (map (\<lambda>(x, y, z). z) volume) interpolate_z
      in flags)"

text \<open>One turn of the loop of \<open>_update_material_types\<close>, at \<open>index\<close>. Python's
  \<open>and\<close> reads \<open>material_flags[index]\<close> only when the membership test holds, and
  \<open>material_map[k][0]\<close> only when a write is due; each of the two reads can raise
  IndexError.\<close>

definition update_particle ::
  "int list \<times> int list \<Rightarrow> bool list \<Rightarrow> nat \<Rightarrow> int list \<Rightarrow> error \<times> int list + int list" where
  "update_particle mm material_flags index data =
     (let material = data ! index in
      case (if material \<in> set (fst mm) then
              (if index < length material_flags then
                 (if material_flags ! index then
                    (case snd mm of [] \<Rightarrow> Inl (IndexError, data)
                     | c # _ \<Rightarrow> Inr (data[index := c]))
                  else Inr data)
               else Inl (IndexError, data))
            else Inr data) of
        Inl e \<Rightarrow> Inl e
      | Inr data1 \<Rightarrow>
          (if material \<in> set (snd mm) then
             (if index < length material_flags then
                (if \<not> material_flags ! index then
                   (case fst mm of [] \<Rightarrow> Inl (IndexError, data1)
                    | c # _ \<Rightarrow> Inr (data1[index := c]))
                 else Inr data1)
              else Inl (IndexError, data1))
           else Inr data1))"

fun update_loop ::
  "int list \<times> int list \<Rightarrow> bool list \<Rightarrow> nat list \<Rightarrow> int list \<Rightarrow> error \<times> int list + int list" where
  "update_loop mm material_flags [] data = Inr data"
| "update_loop mm material_flags (index # rest) data =
     (case update_particle mm material_flags index data of
        Inl e \<Rightarrow> Inl e
      | Inr data1 \<Rightarrow> update_loop mm material_flags rest data1)"

definition set_material :: "int list \<Rightarrow> 'w linkage \<Rightarrow> 'w linkage" where
  "set_material data s = s\<lparr>uw := (uw s)\<lparr>material_index := data\<rparr>\<rparr>"

definition update_material_types ::
  "'w externals \<Rightarrow> 'w linkage \<Rightarrow> error \<times> 'w linkage + 'w linkage" where
  "update_material_types ext s =
     (if disable_material_changes s then Inr s
      else
        let material_flags = determine_particle_state ext s;
            data = material_index (uw s)
        in case update_loop (material_map s) material_flags [0..<length data] data of
             Inl (e, data1) \<Rightarrow> Inl (e, set_material data1 s)
           | Inr data1 \<Rightarrow> Inr (set_material data1 s))"

subsection \<open>Injection of the displacement into Badlands\<close>

text \<open>The write to \<open>force.merge3d\<close> and the update of \<open>force.T_disp\<close>, the same
  lines in both injectors. \<open>T_disp[0, 0] = time\<close> raises IndexError on a table
  without rows.\<close>

definition set_merge3d :: "'w linkage \<Rightarrow> 'w linkage" where
  "set_merge3d s =
     s\<lparr>badlands_model := (badlands_model s)
        \<lparr>merge3d := Afactor (badlands_model s) * resEdges (badlands_model s) * 0.5\<rparr>\<rparr>"

definition insert_T_disp ::
  "real \<Rightarrow> real \<Rightarrow> 'w linkage \<Rightarrow> error \<times> 'w linkage + 'w linkage" where
  "insert_T_disp time dt s =
     (if disp_inserted s then
        (case T_disp (badlands_model s) of
           [] \<Rightarrow> Inl (IndexError, s)
         | row # rows \<Rightarrow>
             Inr (s\<lparr>badlands_model := (badlands_model s)\<lparr>T_disp := (time, time + dt) # rows\<rparr>\<rparr>))
      else
        Inr (s\<lparr>badlands_model := (badlands_model s)
                 \<lparr>T_disp := (time, time + dt) # T_disp (badlands_model s)\<rparr>,
               disp_inserted := True\<rparr>))"

definition set_injected_disps :: "vec3 list \<Rightarrow> 'w linkage \<Rightarrow> 'w linkage" where
  "set_injected_disps disp s =
     s\<lparr>badlands_model := (badlands_model s)\<lparr>injected_disps := disp\<rparr>\<rparr>"

definition inject_badlands_displacement ::
  "real \<Rightarrow> real \<Rightarrow> vec3 list \<Rightarrow> 'w linkage \<Rightarrow> error \<times> 'w linkage + 'w linkage" where
  "inject_badlands_displacement time dt disp s =
     (case insert_T_disp time dt (set_merge3d s) of
        Inl e \<Rightarrow> Inl e
      | Inr s1 \<Rightarrow> Inr (set_injected_disps disp s1))"

text \<open>\<open>reshape(rnx, rny)\<close> of a flat array: rows of \<open>rny\<close> entries. numpy raises
  ValueError unless the sizes agree; the callers below test the size first.\<close>

fun rows_of :: "nat \<Rightarrow> nat \<Rightarrow> 'a list \<Rightarrow> 'a list list" where
  "rows_of 0 c xs = []"
| "rows_of (Suc r) c xs = take c xs # rows_of r c (drop c xs)"

definition inject_badlands_displacement_smooth ::
  "'w externals \<Rightarrow> real \<Rightarrow> real \<Rightarrow> vec3 list \<Rightarrow> real \<Rightarrow> 'w linkage
     \<Rightarrow> error \<times> 'w linkage + 'w linkage" where
  "inject_badlands_displacement_smooth ext time dt disp sigma s =
     (case insert_T_disp time dt (set_merge3d s) of
        Inl e \<Rightarrow> Inl e
      | Inr s1 \<Rightarrow>
          let nx = rnx (badlands_model s1); ny = rny (badlands_model s1) in
          if length disp \<noteq> nx * ny then Inl (ValueError, s1)
          else
            let dispX = rows_of nx ny (map (\<lambda>(x, y, z). x) disp);
                dispY = rows_of nx ny (map (\<lambda>(x, y, z). y) disp);
                dispZ = rows_of nx ny (map (\<lambda>(x, y, z). z) disp);
                smoothX = concat (gaussian_filter ext dispX sigma);
                smoothY = concat (gaussian_filter ext dispY sigma);
                smoothZ = concat (gaussian_filter ext dispZ sigma)
            in if length smoothX \<noteq> nx * ny \<or> length smoothY \<noteq> nx * ny
                  \<or> length smoothZ \<noteq> nx * ny
               then Inl (ValueError, s1)
               else Inr (set_injected_disps (zip smoothX (zip smoothY smoothZ)) s1))"

subsection \<open>Start-up and the coupling loop\<close>

text \<open>The constructor, with the members that must be set given as arguments.\<close>

definition LinkageModel_init :: "underworld \<Rightarrow> badlands \<Rightarrow> 'w \<Rightarrow> 'w linkage" where
  "LinkageModel_init u b w =
     \<lparr>uw = u, badlands_model = b, world = w,
      checkpoint_interval = 10000,
      material_map = ([0], [1]),
      time_years = 0,
      model_started = False,
      disp_inserted = False,
      checkpoint_number = 0,
      next_checkpoint_years = None,
      disable_material_changes = False,
      surface_tracers = [],
      checkpoints = []\<rparr>"

text \<open>\<open>self.checkpoint_function(self, self._checkpoint_number, self.time_years)\<close>,
  the same expression in \<open>_startup\<close> and in the loop.\<close>

definition call_checkpoint_function :: "'w externals \<Rightarrow> 'w linkage \<Rightarrow> 'w linkage" where
  "call_checkpoint_function ext s =
     s\<lparr>world := checkpoint_function ext s (checkpoint_number s) (time_years s),
       checkpoints := checkpoints s @ [(checkpoint_number s, time_years s)]\<rparr>"

definition startup :: "'w externals \<Rightarrow> 'w linkage \<Rightarrow> error \<times> 'w linkage + 'w linkage" where
  "startup ext s =
     (if model_started s then Inl (AssertionError_model_started, s)
      else
        let rg = badlands_model s in
        if rectX rg = [] \<or> rectY rg = [] then Inl (ValueError, s)
        else
          let bl_xy = (Min (set (rectX rg)), Max (set (rectX rg)),
                       Min (set (rectY rg)), Max (set (rectY rg)));
              uw_xy = (fst (minCoord (uw s)), fst (maxCoord (uw s)),
                       fst (snd (minCoord (uw s))), fst (snd (maxCoord (uw s))))
          in if bl_xy \<noteq> uw_xy then Inl (AssertionError_domain bl_xy uw_xy, s)
             else
               let s1 = s\<lparr>badlands_model :=
                            rg\<lparr>disp3d := True, region := 0, tDisplay := checkpoint_interval s\<rparr>\<rparr>
               in if length (rectX rg) \<noteq> length (rectY rg) \<or> length (rectX rg) \<noteq> length (rectZ rg)
                  then Inl (ValueError, s1)
                  else
                    let s2 = s1\<lparr>surface_tracers := zip (rectX rg) (zip (rectY rg) (rectZ rg))\<rparr>
                    in case update_material_types ext s2 of
                         Inl e \<Rightarrow> Inl e
                       | Inr s3 \<Rightarrow>
                           let s4 = s3\<lparr>next_checkpoint_years := Some (checkpoint_interval s3)\<rparr>;
                               s5 = call_checkpoint_function ext s4;
                               s6 = s5\<lparr>badlands_model := (badlands_model s5)\<lparr>next_display := 0\<rparr>\<rparr>;
                               s7 = s6\<lparr>checkpoint_number := checkpoint_number s6 + 1\<rparr>
                           in Inr (s7\<lparr>model_started := True\<rparr>))"

text \<open>The ceiling handed to the update callback in a turn of the loop, and what the
  callback returns.\<close>

definition max_seconds_of :: "real \<Rightarrow> real \<Rightarrow> 'w linkage \<Rightarrow> real" where
  "max_seconds_of end_years nxt s =
     (let max_years = nxt - time_years s;
          max_years = min (end_years - time_years s) max_years
      in max_years * SECONDS_PER_YEAR)"

definition after_update :: "'w externals \<Rightarrow> 'w linkage \<Rightarrow> real \<Rightarrow> 'w linkage" where
  "after_update ext s max_seconds =
     (case update_function ext s max_seconds of (dt_seconds, u, w) \<Rightarrow> s\<lparr>uw := u, world := w\<rparr>)"

definition scale_disp :: "real \<Rightarrow> vec3 \<Rightarrow> vec3" where
  "scale_disp dt_years v =
     (case v of (vx, vy, vz) \<Rightarrow>
        (vx * SECONDS_PER_YEAR * dt_years, vy * SECONDS_PER_YEAR * dt_years,
         vz * SECONDS_PER_YEAR * dt_years))"

definition call_run_to_time :: "'w externals \<Rightarrow> real \<Rightarrow> 'w linkage \<Rightarrow> 'w linkage" where
  "call_run_to_time ext t s =
     (case run_to_time ext (badlands_model s) (world s) t of
        (vs, es, w) \<Rightarrow>
          s\<lparr>badlands_model := (badlands_model s)\<lparr>vertices := vs, elevation := es\<rparr>, world := w\<rparr>)"

text \<open>The body of the \<open>while\<close> loop of \<open>run_for_years\<close>. Before \<open>_startup\<close> the
  boundary is \<open>None\<close> and the subtraction raises TypeError.\<close>

definition step ::
  "'w externals \<Rightarrow> real \<Rightarrow> real \<Rightarrow> 'w linkage \<Rightarrow> error \<times> 'w linkage + 'w linkage" where
  "step ext end_years sigma s =
     (case next_checkpoint_years s of
        None \<Rightarrow> Inl (TypeError, s)
      | Some nxt \<Rightarrow>
         (let max_seconds = max_seconds_of end_years nxt s;
              dt_seconds = fst (update_function ext s max_seconds);
              s1 = after_update ext s max_seconds
          in if \<not> dt_seconds \<le> max_seconds
             then Inl (AssertionError_dt max_seconds dt_seconds, s1)
             else
               let write_checkpoint = (dt_seconds = max_seconds);
                   dt_years = dt_seconds / SECONDS_PER_YEAR;
                   s2 = s1\<lparr>surface_tracers :=
                           integrate ext (velocity_field (uw s1)) dt_seconds (surface_tracers s1)\<rparr>;
                   tracer_velocity_mps = map (velocity_field (uw s2)) (surface_tracers s2);
                   tracer_disp = map (scale_disp dt_years) tracer_velocity_mps
               in (case (if sigma = 0
                         then inject_badlands_displacement (time_years s2) dt_years tracer_disp s2
                         else inject_badlands_displacement_smooth ext (time_years s2) dt_years
                                tracer_disp sigma s2) of
                     Inl e \<Rightarrow> Inl e
                   | Inr s3 \<Rightarrow>
                       (case update_material_types ext
                               (call_run_to_time ext (time_years s3 + dt_years) s3) of
                          Inl e \<Rightarrow> Inl e
                        | Inr s5 \<Rightarrow>
                            (let s6 = (if write_checkpoint
                                       then (let c = call_checkpoint_function ext s5 in
                                             c\<lparr>checkpoint_number := checkpoint_number c + 1,
                                               next_checkpoint_years :=
                                                 map_option (\<lambda>n. n + checkpoint_interval c)
                                                   (next_checkpoint_years c)\<rparr>)
                                       else s5)
                             in Inr (s6\<lparr>time_years := time_years s6 + dt_years\<rparr>))))))"

text \<open>The loop can run for ever (a callback that returns 0 never reaches
  \<open>end_years\<close>), so it takes fuel: \<open>Unfinished\<close> is the state at the head of the
  loop when the fuel is spent and the loop would go on.\<close>

datatype 'w outcome =
    Returned "'w linkage"
  | Raised error "'w linkage"
  | Unfinished "'w linkage"

fun run_loop :: "'w externals \<Rightarrow> real \<Rightarrow> real \<Rightarrow> nat \<Rightarrow> 'w linkage \<Rightarrow> 'w outcome" where
  "run_loop ext end_years sigma 0 s =
     (if time_years s < end_years then Unfinished s else Returned s)"
| "run_loop ext end_years sigma (Suc fuel) s =
     (if time_years s < end_years then
        (case step ext end_years sigma s of
           Inl (e, s1) \<Rightarrow> Raised e s1
         | Inr s1 \<Rightarrow> run_loop ext end_years sigma fuel s1)
      else Returned s)"

definition run_for_years ::
  "'w externals \<Rightarrow> real \<Rightarrow> real \<Rightarrow> nat \<Rightarrow> 'w linkage \<Rightarrow> 'w outcome" where
  "run_for_years ext years sigma fuel s =
     (case (if \<not> model_started s then startup ext s else Inr s) of
        Inl (e, s1) \<Rightarrow> Raised e s1
      | Inr s1 \<Rightarrow> run_loop ext (time_years s1 + years) sigma fuel s1)"

fun outcome_state :: "'w outcome \<Rightarrow> 'w linkage" where
  "outcome_state (Returned s) = s"
| "outcome_state (Raised e s) = s"
| "outcome_state (Unfinished s) = s"

text \<open>The state after exactly \<open>n\<close> completed turns of the loop, if the loop makes
  that many.\<close>

fun after_steps ::
  "'w externals \<Rightarrow> real \<Rightarrow> real \<Rightarrow> nat \<Rightarrow> 'w linkage \<Rightarrow> 'w linkage option" where
  "after_steps ext end_years sigma 0 s = Some s"
| "after_steps ext end_years sigma (Suc n) s =
     (if time_years s < end_years then
        (case step ext end_years sigma s of
           Inl e \<Rightarrow> None
         | Inr s1 \<Rightarrow> after_steps ext end_years sigma n s1)
      else None)"

subsection \<open>The clock of the loop in IEEE double arithmetic\<close>

text \<open>Rounding of a real number to the nearest double, ties to even, for values in
  the normal range (no overflow, no subnormal numbers): \<open>binade x\<close> is the exponent
  \<open>e\<close> with \<open>2 ^ e \<le> \<bar>x\<bar> < 2 ^ (e + 1)\<close>, and a double has 53 significant bits, so
  \<open>x\<close> is rounded to a multiple of \<open>2 ^ (e - 52)\<close>.\<close>

fun bits :: "nat \<Rightarrow> nat" where
  "bits n = (if n = 0 then 0 else Suc (bits (n div 2)))"

definition binade :: "real \<Rightarrow> int" where
  "binade x =
     (if 1 \<le> \<bar>x\<bar> then int (bits (nat \<lfloor>\<bar>x\<bar>\<rfloor>)) - 1
      else - int (bits (nat (\<lceil>1 / \<bar>x\<bar>\<rceil> - 1))))"

definition pow2 :: "int \<Rightarrow> real" where
  "pow2 k = (if 0 \<le> k then 2 ^ nat k else 1 / 2 ^ nat (- k))"

definition round_half_even :: "real \<Rightarrow> int" where
  "round_half_even x =
     (let f = \<lfloor>x\<rfloor>; r = x - of_int f
      in if r < 1 / 2 then f else if 1 / 2 < r then f + 1 else if even f then f else f + 1)"

definition double :: "real \<Rightarrow> real" where
  "double x =
     (if x = 0 then 0
      else let q = binade x - 52 in of_int (round_half_even (x / pow2 q)) * pow2 q)"

text \<open>The three members the loop of \<open>run_for_years\<close> keeps its schedule in
  (\<open>time_years\<close>, \<open>_next_checkpoint_years\<close>, \<open>_checkpoint_number\<close>), and what one
  turn of the loop does to them: lines 122 to 136 and 179 to 186 of the source, with
  every arithmetic operation followed by the rounding \<open>rnd\<close>. With \<open>rnd\<close> the
  identity this is \<open>step\<close> restricted to the three members (lemma
  \<open>step_bookkeeping\<close>); with \<open>rnd = double\<close> it is what Python computes. The update
  callback is given as the number of seconds it returns.\<close>

record bookkeeping =
  bk_time_years :: real
  bk_next_checkpoint_years :: real
  bk_checkpoint_number :: nat

definition bookkeeping_turn ::
  "(real \<Rightarrow> real) \<Rightarrow> real \<Rightarrow> real \<Rightarrow> (bookkeeping \<Rightarrow> real \<Rightarrow> real) \<Rightarrow> bookkeeping
     \<Rightarrow> error \<times> bookkeeping + bookkeeping" where
  "bookkeeping_turn rnd end_years interval update b =
     (let max_years = rnd (bk_next_checkpoint_years b - bk_time_years b);
          max_years = min (rnd (end_years - bk_time_years b)) max_years;
          max_seconds = rnd (max_years * SECONDS_PER_YEAR);
          dt_seconds = update b max_seconds
      in if \<not> dt_seconds \<le> max_seconds
         then Inl (AssertionError_dt max_seconds dt_seconds, b)
         else
           (let write_checkpoint = (dt_seconds = max_seconds);
                dt_years = rnd (dt_seconds / SECONDS_PER_YEAR);
                b1 = (if write_checkpoint
                      then b\<lparr>bk_checkpoint_number := bk_checkpoint_number b + 1,
                             bk_next_checkpoint_years :=
                               rnd (bk_next_checkpoint_years b + interval)\<rparr>
                      else b)
            in Inr (b1\<lparr>bk_time_years := rnd (bk_time_years b1 + dt_years)\<rparr>)))"

definition bookkeeping_of :: "real \<Rightarrow> 'w linkage \<Rightarrow> bookkeeping" where
  "bookkeeping_of nxt s =
     \<lparr>bk_time_years = time_years s, bk_next_checkpoint_years = nxt,
      bk_checkpoint_number = checkpoint_number s\<rparr>"

text \<open>Two update callbacks: one returns \<open>8e10\<close> seconds in the first turn and the
  whole window afterwards, one always the whole window.\<close>

definition slow_then_full :: "bookkeeping \<Rightarrow> real \<Rightarrow> real" where
  "slow_then_full b max_seconds = (if bk_time_years b = 0 then 80000000000 else max_seconds)"

definition full_window :: "bookkeeping \<Rightarrow> real \<Rightarrow> real" where
  "full_window b max_seconds = max_seconds"

subsection \<open>Auxiliary notions for the proofs\<close>

text \<open>What one turn of the material loop does to the identifier at \<open>index\<close>, as a
  function of that identifier alone; \<open>None\<close> is the IndexError. The lemma
  \<open>update_particle_new_value\<close> shows that \<open>update_particle\<close> computes exactly this.\<close>

definition new_value :: "int list \<times> int list \<Rightarrow> bool list \<Rightarrow> nat \<Rightarrow> int \<Rightarrow> int option" where
  "new_value mm material_flags index material =
     (if material \<in> set (fst mm) \<and> \<not> index < length material_flags then None
      else if material \<in> set (fst mm) \<and> material_flags ! index then
        (case snd mm of [] \<Rightarrow> None | c # _ \<Rightarrow> Some c)
      else if material \<in> set (snd mm) \<and> \<not> index < length material_flags then None
      else if material \<in> set (snd mm) \<and> \<not> material_flags ! index then
        (case fst mm of [] \<Rightarrow> None | c # _ \<Rightarrow> Some c)
      else Some material)"

text \<open>The checkpoint schedule: before \<open>_startup\<close> no checkpoint has been numbered;
  afterwards the boundary is the checkpoint number times the interval.\<close>

definition cadence :: "'w linkage \<Rightarrow> bool" where
  "cadence s =
     (if model_started s
      then 1 \<le> checkpoint_number s
           \<and> next_checkpoint_years s = Some (real (checkpoint_number s) * checkpoint_interval s)
      else checkpoint_number s = 0)"


text \<open>Names for the values of one turn of the loop of \<open>run_for_years\<close>, started in
  \<open>s\<close> with the boundary \<open>nxt\<close>: what the update callback returns, in seconds and in
  years; the object after the callback and the advection of the tracers; the
  displacement computed from the velocity at the tracers; and the end of the turn (the
  checkpoint, if due, and the advance of the clock). The lemma \<open>step_unfold\<close> shows
  that \<open>step\<close> is made of exactly these.\<close>

definition dt_seconds_of :: "'w externals \<Rightarrow> real \<Rightarrow> real \<Rightarrow> 'w linkage \<Rightarrow> real" where
  "dt_seconds_of ext end_years nxt s = fst (update_function ext s (max_seconds_of end_years nxt s))"

definition dt_years_of :: "'w externals \<Rightarrow> real \<Rightarrow> real \<Rightarrow> 'w linkage \<Rightarrow> real" where
  "dt_years_of ext end_years nxt s = dt_seconds_of ext end_years nxt s / SECONDS_PER_YEAR"

definition advected :: "'w externals \<Rightarrow> real \<Rightarrow> real \<Rightarrow> 'w linkage \<Rightarrow> 'w linkage" where
  "advected ext end_years nxt s =
     (let s1 = after_update ext s (max_seconds_of end_years nxt s)
      in s1\<lparr>surface_tracers :=
              integrate ext (velocity_field (uw s1)) (dt_seconds_of ext end_years nxt s)
                (surface_tracers s1)\<rparr>)"

definition tracer_disp_of :: "'w externals \<Rightarrow> real \<Rightarrow> real \<Rightarrow> 'w linkage \<Rightarrow> vec3 list" where
  "tracer_disp_of ext end_years nxt s =
     map (scale_disp (dt_years_of ext end_years nxt s))
       (map (velocity_field (uw (advected ext end_years nxt s)))
          (surface_tracers (advected ext end_years nxt s)))"

definition finish :: "'w externals \<Rightarrow> bool \<Rightarrow> real \<Rightarrow> 'w linkage \<Rightarrow> 'w linkage" where
  "finish ext write_checkpoint dt_years s5 =
     (let s6 = (if write_checkpoint
                then (let c = call_checkpoint_function ext s5 in
                      c\<lparr>checkpoint_number := checkpoint_number c + 1,
                        next_checkpoint_years :=
                          map_option (\<lambda>n. n + checkpoint_interval c) (next_checkpoint_years c)\<rparr>)
                else s5)
      in s6\<lparr>time_years := time_years s6 + dt_years\<rparr>)"

text \<open>The table \<open>T_disp\<close> after an injection for the interval from \<open>time\<close> to
  \<open>time + dt\<close> into the object \<open>s\<close>.\<close>

definition rows_after :: "'w linkage \<Rightarrow> real \<Rightarrow> real \<Rightarrow> (real \<times> real) list" where
  "rows_after s time dt =
     (time, time + dt) # (if disp_inserted s then tl (T_disp (badlands_model s))
                          else T_disp (badlands_model s))"

text \<open>Names for the values of \<open>_startup\<close>: the object after the Badlands
  settings and the seeding of the tracers, and the end of \<open>_startup\<close> after the
  first classification. The lemma \<open>startup_cases\<close> shows that \<open>startup\<close> is made
  of exactly these.\<close>

definition seeded :: "'w linkage \<Rightarrow> 'w linkage" where
  "seeded s =
     s\<lparr>badlands_model := (badlands_model s)
          \<lparr>disp3d := True, region := 0, tDisplay := checkpoint_interval s\<rparr>,
       surface_tracers := zip (rectX (badlands_model s))
          (zip (rectY (badlands_model s)) (rectZ (badlands_model s)))\<rparr>"

definition armed :: "'w externals \<Rightarrow> 'w linkage \<Rightarrow> 'w linkage" where
  "armed ext s3 =
     (let s4 = s3\<lparr>next_checkpoint_years := Some (checkpoint_interval s3)\<rparr>;
          s5 = call_checkpoint_function ext s4;
          s6 = s5\<lparr>badlands_model := (badlands_model s5)\<lparr>next_display := 0\<rparr>\<rparr>;
          s7 = s6\<lparr>checkpoint_number := checkpoint_number s6 + 1\<rparr>
      in s7\<lparr>model_started := True\<rparr>)"

text \<open>The schedule of a started object.\<close>

definition on_schedule :: "'w linkage \<Rightarrow> bool" where
  "on_schedule s =
     (model_started s \<and> 1 \<le> checkpoint_number s
      \<and> next_checkpoint_years s = Some (real (checkpoint_number s) * checkpoint_interval s))"

subsection \<open>A concrete model\<close>

text \<open>A unit square with a flat surface at elevation 0 on a 2 by 2 grid, and three
  particles: one below the surface carrying the air identifier, one above it carrying
  the sediment identifier, and one outside the grid carrying the sediment identifier.
  Badlands starts with one row in \<open>T_disp\<close>. The interpolation stand-in returns the
  flat elevation inside the square and NaN outside.\<close>

definition uw0 :: underworld where
  "uw0 = \<lparr>minCoord = (0, 0, -1), maxCoord = (1, 1, 1),
           velocity_field = (\<lambda>p. (0, 0, 1)),
           swarm = [(1/2, 1/2, -1/2), (1/2, 1/2, 1/2), (2, 2, -1/2)],
           material_index = [0, 1, 1]\<rparr>"

definition bl0 :: badlands where
  "bl0 = \<lparr>rectX = [0, 1, 0, 1], rectY = [0, 0, 1, 1], rectZ = [0, 0, 0, 0],
           rnx = 2, rny = 2, resEdges = 1,
           vertices = [(0, 0), (1, 0), (0, 1), (1, 1)], elevation = [0, 0, 0, 0],
           Afactor = 1, disp3d = False, region = 1, tDisplay = 1, next_display = 1,
           merge3d = 0, T_disp = [(20000, 210000)], injected_disps = []\<rparr>"

text \<open>Three update callbacks: one uses the whole window, one half of it, one
  overruns it by a second.\<close>

definition ext0 :: "unit externals" where
  "ext0 = \<lparr>update_function = (\<lambda>s m. (m, uw s, world s)),
            checkpoint_function = (\<lambda>s i t. world s),
            integrate = (\<lambda>v dt tr. tr),
            run_to_time = (\<lambda>b w t. (vertices b, elevation b, w)),
            griddata = (\<lambda>pts vals (x, y).
               if 0 \<le> x \<and> x \<le> 1 \<and> 0 \<le> y \<and> y \<le> 1 then Some 0 else None),
            gaussian_filter = (\<lambda>a sg. a)\<rparr>"

definition ext_half :: "unit externals" where
  "ext_half = ext0\<lparr>update_function := (\<lambda>s m. (m / 2, uw s, world s))\<rparr>"

definition ext_over :: "unit externals" where
  "ext_over = ext0\<lparr>update_function := (\<lambda>s m. (m + 1, uw s, world s))\<rparr>"

definition model0 :: "unit linkage" where
  "model0 = LinkageModel_init uw0 bl0 ()"

text \<open>\<open>model0\<close> after \<open>_startup\<close>, and after one turn of the loop of
  \<open>run_for_years(10000)\<close> with the first callback.\<close>

definition started0 :: "unit linkage" where
  "started0 =
     \<lparr>uw = uw0\<lparr>material_index := [1, 0, 0]\<rparr>,
      badlands_model = bl0\<lparr>disp3d := True, region := 0, tDisplay := 10000, next_display := 0\<rparr>,
      world = (),
      checkpoint_interval = 10000,
      material_map = ([0], [1]),
      time_years = 0,
      model_started = True,
      disp_inserted = False,
      checkpoint_number = 1,
      next_checkpoint_years = Some 10000,
      disable_material_changes = False,
      surface_tracers = [(0, 0, 0), (1, 0, 0), (0, 1, 0), (1, 1, 0)],
      checkpoints = [(0, 0)]\<rparr>"

definition stepped0 :: "unit linkage" where
  "stepped0 =
     started0
       \<lparr>badlands_model := (badlands_model started0)
          \<lparr>merge3d := 1 / 2,
           T_disp := [(0, 10000), (20000, 210000)],
           injected_disps := [(0, 0, 315360000000), (0, 0, 315360000000),
                              (0, 0, 315360000000), (0, 0, 315360000000)]\<rparr>,
        time_years := 10000,
        disp_inserted := True,
        checkpoint_number := 2,
        next_checkpoint_years := Some 20000,
        checkpoints := [(0, 0), (1, 0)]\<rparr>"

text \<open>\<open>started0\<close> after one turn of the loop of \<open>run_for_years(10000)\<close> with the
  callback that uses half of the window.\<close>

definition halfway0 :: "unit linkage" where
  "halfway0 =
     started0
       \<lparr>badlands_model := (badlands_model started0)
          \<lparr>merge3d := 1 / 2,
           T_disp := [(0, 5000), (20000, 210000)],
           injected_disps := [(0, 0, 157680000000), (0, 0, 157680000000),
                              (0, 0, 157680000000), (0, 0, 157680000000)]\<rparr>,
        time_years := 5000,
        disp_inserted := True\<rparr>"

section \<open>Properties of the classification\<close>

lemma update_particle_new_value:
  "update_particle mm fl i d =
     (case new_value mm fl i (d ! i) of
        None \<Rightarrow> Inl (IndexError, d)
      | Some v \<Rightarrow> Inr (d[i := v]))"
  by (cases "fst mm"; cases "snd mm")
     (auto simp: update_particle_def new_value_def Let_def)

lemma new_value_idem:
  "new_value mm fl i v = Some v' \<Longrightarrow> new_value mm fl i v' = Some v'"
  by (cases "fst mm"; cases "snd mm")
     (auto simp: new_value_def split: if_splits)

lemma update_loop_char:
  "distinct js \<Longrightarrow> update_loop mm fl js d = Inr d' \<Longrightarrow>
     length d' = length d
     \<and> (\<forall>j. j \<in> set js \<longrightarrow> j < length d \<longrightarrow> new_value mm fl j (d ! j) = Some (d' ! j))
     \<and> (\<forall>j. j \<notin> set js \<longrightarrow> d' ! j = d ! j)"
proof (induction js arbitrary: d)
  case Nil
  then show ?case by simp
next
  case (Cons k js)
  from Cons.prems(2) obtain v where v: "new_value mm fl k (d ! k) = Some v"
    and rest: "update_loop mm fl js (d[k := v]) = Inr d'"
    by (auto simp: update_particle_new_value split: option.splits)
  from Cons.prems(1) have dist: "distinct js" and k: "k \<notin> set js" by auto
  note ih = Cons.IH [OF dist rest]
  have len: "length d' = length d" using ih by simp
  have at_k: "k < length d \<longrightarrow> d' ! k = v"
    using ih k by auto
  have others: "\<forall>j. j \<in> set js \<longrightarrow> j < length d \<longrightarrow> new_value mm fl j (d ! j) = Some (d' ! j)"
  proof (intro allI impI)
    fix j assume j: "j \<in> set js" "j < length d"
    then have "j \<noteq> k" using k by auto
    then have "d[k := v] ! j = d ! j" by simp
    then show "new_value mm fl j (d ! j) = Some (d' ! j)"
      using ih j by auto
  qed
  have outside: "\<forall>j. j \<notin> set (k # js) \<longrightarrow> d' ! j = d ! j"
    using ih by auto
  show ?case using len at_k others outside v by auto
qed

lemma update_loop_fixed:
  "\<forall>j \<in> set js. new_value mm fl j (d ! j) = Some (d ! j) \<Longrightarrow> update_loop mm fl js d = Inr d"
  by (induction js) (auto simp: update_particle_new_value)

lemma update_loop_idem:
  assumes "update_loop mm fl [0..<length d] d = Inr d1"
  shows "update_loop mm fl [0..<length d1] d1 = Inr d1"
proof -
  have c: "length d1 = length d
     \<and> (\<forall>j. j \<in> set [0..<length d] \<longrightarrow> j < length d \<longrightarrow> new_value mm fl j (d ! j) = Some (d1 ! j))"
    using update_loop_char [OF _ assms] by simp
  then have "\<forall>j \<in> set [0..<length d1]. new_value mm fl j (d1 ! j) = Some (d1 ! j)"
    by (auto intro: new_value_idem)
  then show ?thesis by (rule update_loop_fixed)
qed

lemma update_loop_succeeds:
  "fst mm \<noteq> [] \<Longrightarrow> snd mm \<noteq> [] \<Longrightarrow> \<forall>j \<in> set js. j < length fl \<Longrightarrow>
     \<exists>d'. update_loop mm fl js d = Inr d'"
proof (induction js arbitrary: d)
  case Nil
  then show ?case by simp
next
  case (Cons k js)
  then have "\<exists>v. new_value mm fl k (d ! k) = Some v"
    by (cases "fst mm"; cases "snd mm") (auto simp: new_value_def)
  then show ?case using Cons by (auto simp: update_particle_new_value)
qed

lemma length_determine_particle_state:
  "length (determine_particle_state ext s) = length (swarm (uw s))"
  by (simp add: determine_particle_state_def Let_def)

lemma nth_determine_particle_state:
  "i < length (swarm (uw s)) \<Longrightarrow> swarm (uw s) ! i = (x, y, z) \<Longrightarrow>
     determine_particle_state ext s ! i =
       below z (griddata ext (vertices (badlands_model s)) (elevation (badlands_model s)) (x, y))"
  by (simp add: determine_particle_state_def Let_def)

lemma determine_particle_state_set_material:
  "determine_particle_state ext (set_material d s) = determine_particle_state ext s"
  by (simp add: determine_particle_state_def set_material_def Let_def)

lemma update_material_types_Inr:
  assumes "\<not> disable_material_changes s" "update_material_types ext s = Inr s'"
  shows "s' = set_material (material_index (uw s')) s
     \<and> update_loop (material_map s) (determine_particle_state ext s)
          [0..<length (material_index (uw s))] (material_index (uw s)) = Inr (material_index (uw s'))"
  using assms
  by (auto simp: update_material_types_def Let_def set_material_def split: sum.splits)

subsection \<open>The claims about the classification\<close>

lemma update_material_types_succeeds:
  assumes "fst (material_map s) \<noteq> []" "snd (material_map s) \<noteq> []"
    and "length (material_index (uw s)) \<le> length (swarm (uw s))"
  shows "\<exists>s'. update_material_types ext s = Inr s'"
proof -
  have "\<forall>j \<in> set [0..<length (material_index (uw s))]. j < length (determine_particle_state ext s)"
    using assms(3) by (simp add: length_determine_particle_state)
  from update_loop_succeeds [OF assms(1,2) this]
  obtain d' where "update_loop (material_map s) (determine_particle_state ext s)
      [0..<length (material_index (uw s))] (material_index (uw s)) = Inr d'"
    by blast
  then show ?thesis by (simp add: update_material_types_def Let_def)
qed

lemmas model0_defs = model0_def LinkageModel_init_def uw0_def bl0_def ext0_def

lemma flags0: "determine_particle_state ext0 model0 = [True, False, False]"
  by (simp add: determine_particle_state_def model0_defs below_def)

lemma update0: "update_material_types ext0 model0 = Inr (set_material [1, 0, 0] model0)"
  unfolding update_material_types_def flags0
  by (simp add: model0_def LinkageModel_init_def uw0_def update_particle_def)

text \<open>
  \<^bold>\<open>C5.\<close> For a call of \<open>_update_material_types\<close> that is not switched off and
  returns, and for every particle \<open>i\<close> at \<open>(x, y, z)\<close>: the classifier flags it
  sediment if and only if the interpolation at \<open>(x, y)\<close> yields an elevation \<open>e\<close>
  with \<open>z < e\<close>; an identifier in the air set of a particle flagged sediment is
  replaced by the first element of the sediment set; an identifier in the sediment set
  of a particle flagged air is replaced by the first element of the air set; every other
  identifier is left as it was, and the array keeps its length.
\<close>

theorem C5_classify_and_update:
  assumes "\<not> disable_material_changes s"
    and "update_material_types ext s = Inr s'"
    and "i < length (material_index (uw s))"
    and "i < length (swarm (uw s))"
    and "swarm (uw s) ! i = (x, y, z)"
  shows "(determine_particle_state ext s ! i \<longleftrightarrow>
            (\<exists>e. griddata ext (vertices (badlands_model s)) (elevation (badlands_model s)) (x, y) = Some e
                 \<and> z < e))
       \<and> (material_index (uw s) ! i \<in> set (fst (material_map s))
            \<and> determine_particle_state ext s ! i \<longrightarrow>
          (\<exists>rest. snd (material_map s) = material_index (uw s') ! i # rest))
       \<and> (material_index (uw s) ! i \<in> set (snd (material_map s))
            \<and> \<not> determine_particle_state ext s ! i \<longrightarrow>
          (\<exists>rest. fst (material_map s) = material_index (uw s') ! i # rest))
       \<and> (\<not> (material_index (uw s) ! i \<in> set (fst (material_map s))
               \<and> determine_particle_state ext s ! i)
            \<and> \<not> (material_index (uw s) ! i \<in> set (snd (material_map s))
                 \<and> \<not> determine_particle_state ext s ! i) \<longrightarrow>
          material_index (uw s') ! i = material_index (uw s) ! i)
       \<and> length (material_index (uw s')) = length (material_index (uw s))"
proof -
  let ?fl = "determine_particle_state ext s"
  let ?d = "material_index (uw s)"
  let ?d' = "material_index (uw s')"
  have flag: "?fl ! i \<longleftrightarrow>
      (\<exists>e. griddata ext (vertices (badlands_model s)) (elevation (badlands_model s)) (x, y) = Some e
           \<and> z < e)"
    using assms(4,5) by (simp add: nth_determine_particle_state below_def split: option.splits)
  have loop: "update_loop (material_map s) ?fl [0..<length ?d] ?d = Inr ?d'"
    using update_material_types_Inr [OF assms(1,2)] by simp
  have c: "length ?d' = length ?d \<and> new_value (material_map s) ?fl i (?d ! i) = Some (?d' ! i)"
    using update_loop_char [OF _ loop] assms(3) by simp
  have il: "i < length ?fl" using assms(4) by (simp add: length_determine_particle_state)
  show ?thesis
    using flag c il
    by (cases "fst (material_map s)"; cases "snd (material_map s)")
       (auto simp: new_value_def split: if_splits)
qed

theorem C5_witness:
  "\<not> disable_material_changes model0
   \<and> update_material_types ext0 model0 = Inr (set_material [1, 0, 0] model0)
   \<and> (0::nat) < length (material_index (uw model0))
   \<and> (0::nat) < length (swarm (uw model0))
   \<and> swarm (uw model0) ! 0 = (1/2, 1/2, -1/2)
   \<and> determine_particle_state ext0 model0 ! 0
   \<and> material_index (uw model0) ! 0 = 0
   \<and> material_index (uw (set_material [1, 0, 0] model0)) ! 0 = 1
   \<and> snd (material_map model0) = [1]"
proof -
  have h1: "\<not> disable_material_changes model0"
    by (simp add: model0_def LinkageModel_init_def)
  have h3: "0 < length (material_index (uw model0))"
    by (simp add: model0_def LinkageModel_init_def uw0_def)
  have h4: "0 < length (swarm (uw model0))"
    by (simp add: model0_def LinkageModel_init_def uw0_def)
  have h5: "swarm (uw model0) ! 0 = (1/2, 1/2, -1/2)"
    by (simp add: model0_def LinkageModel_init_def uw0_def)
  have m: "material_index (uw model0) ! 0 = 0" "snd (material_map model0) = [1]"
    by (simp_all add: model0_def LinkageModel_init_def uw0_def)
  show ?thesis
    using h1 update0 h3 h4 h5 m C5_classify_and_update [OF h1 update0 h3 h4 h5]
    by (simp add: flags0 set_material_def)
qed

text \<open>
  \<^bold>\<open>C6.\<close> Reclassification is idempotent: if a call of \<open>_update_material_types\<close>
  returns, a second call on the object it leaves (same elevations, same particle
  positions) returns and leaves the very same object. This holds for every material
  map and every identifier array, so in particular when each identifier belongs to
  exactly one of the two sets.
\<close>

theorem C6_update_idempotent:
  "update_material_types ext s = Inr s1 \<Longrightarrow> update_material_types ext s1 = Inr s1"
proof (cases "disable_material_changes s")
  case True
  assume "update_material_types ext s = Inr s1"
  with True have "s1 = s" by (simp add: update_material_types_def)
  with True show ?thesis by (simp add: update_material_types_def)
next
  case False
  assume a: "update_material_types ext s = Inr s1"
  let ?fl = "determine_particle_state ext s"
  let ?d = "material_index (uw s)"
  from a False obtain d1 where
    loop: "update_loop (material_map s) ?fl [0..<length ?d] ?d = Inr d1"
    and s1: "s1 = set_material d1 s"
    by (auto simp: update_material_types_def Let_def split: sum.splits)
  have "update_loop (material_map s) ?fl [0..<length d1] d1 = Inr d1"
    using loop by (rule update_loop_idem)
  moreover have "set_material d1 (set_material d1 s) = set_material d1 s"
    by (simp add: set_material_def)
  ultimately show ?thesis
    using False s1
    by (simp add: update_material_types_def determine_particle_state_set_material)
       (simp add: set_material_def)
qed

theorem C6_witness:
  "update_material_types ext0 model0 = Inr (set_material [1, 0, 0] model0)
   \<and> update_material_types ext0 (set_material [1, 0, 0] model0)
       = Inr (set_material [1, 0, 0] model0)"
  using update0 C6_update_idempotent [OF update0] by simp

text \<open>
  \<^bold>\<open>C10.\<close> A particle \<open>i\<close> for which the interpolation yields NaN (what
  \<open>griddata\<close> returns outside the convex hull of the known points) is flagged air. With
  a non-empty air set the turn of the material loop at \<open>i\<close> does not raise, whatever
  the array holds; and when the particle carries an identifier of the sediment set, a
  returning call of \<open>_update_material_types\<close> has written the first element of the air
  set at \<open>i\<close>.
\<close>

theorem C10_outside_hull_is_air:
  assumes "i < length (swarm (uw s))"
    and "swarm (uw s) ! i = (x, y, z)"
    and "griddata ext (vertices (badlands_model s)) (elevation (badlands_model s)) (x, y) = None"
  shows "\<not> determine_particle_state ext s ! i
       \<and> (fst (material_map s) \<noteq> [] \<longrightarrow>
            (\<forall>d. \<exists>d'. update_particle (material_map s) (determine_particle_state ext s) i d = Inr d'))
       \<and> (\<forall>s'. \<not> disable_material_changes s
              \<and> update_material_types ext s = Inr s'
              \<and> i < length (material_index (uw s))
              \<and> material_index (uw s) ! i \<in> set (snd (material_map s)) \<longrightarrow>
            (\<exists>rest. fst (material_map s) = material_index (uw s') ! i # rest))"
proof -
  let ?fl = "determine_particle_state ext s"
  have flag: "\<not> ?fl ! i"
    using assms by (simp add: nth_determine_particle_state below_def)
  have il: "i < length ?fl" using assms(1) by (simp add: length_determine_particle_state)
  have nocrash: "fst (material_map s) \<noteq> [] \<longrightarrow>
      (\<forall>d. \<exists>d'. update_particle (material_map s) ?fl i d = Inr d')"
    using flag il
    by (cases "fst (material_map s)") (auto simp: update_particle_new_value new_value_def)
  have rewrite: "\<exists>rest. fst (material_map s) = material_index (uw s') ! i # rest"
    if a: "\<not> disable_material_changes s" "update_material_types ext s = Inr s'"
      "i < length (material_index (uw s))"
      "material_index (uw s) ! i \<in> set (snd (material_map s))" for s'
  proof -
    have loop: "update_loop (material_map s) ?fl [0..<length (material_index (uw s))]
        (material_index (uw s)) = Inr (material_index (uw s'))"
      using update_material_types_Inr [OF a(1,2)] by simp
    have "new_value (material_map s) ?fl i (material_index (uw s) ! i)
        = Some (material_index (uw s') ! i)"
      using update_loop_char [OF _ loop] a(3) by simp
    then show ?thesis
      using flag il a(4)
      by (cases "fst (material_map s)") (auto simp: new_value_def split: if_splits)
  qed
  show ?thesis using flag nocrash rewrite by blast
qed

theorem C10_witness:
  "(2::nat) < length (swarm (uw model0))
   \<and> swarm (uw model0) ! 2 = (2, 2, -1/2)
   \<and> griddata ext0 (vertices (badlands_model model0)) (elevation (badlands_model model0)) (2, 2)
       = None
   \<and> \<not> determine_particle_state ext0 model0 ! 2
   \<and> material_index (uw model0) ! 2 = 1
   \<and> update_material_types ext0 model0 = Inr (set_material [1, 0, 0] model0)
   \<and> material_index (uw (set_material [1, 0, 0] model0)) ! 2 = 0
   \<and> fst (material_map model0) = [0]"
proof -
  have h1: "2 < length (swarm (uw model0))"
    by (simp add: model0_def LinkageModel_init_def uw0_def)
  have h2: "swarm (uw model0) ! 2 = (2, 2, -1/2)"
    by (simp add: model0_def LinkageModel_init_def uw0_def)
  have h3: "griddata ext0 (vertices (badlands_model model0)) (elevation (badlands_model model0))
      (2, 2) = None"
    by (simp add: ext0_def)
  have m: "material_index (uw model0) ! 2 = 1" "fst (material_map model0) = [0]"
    "material_index (uw (set_material [1, 0, 0] model0)) ! 2 = 0"
    by (simp_all add: model0_def LinkageModel_init_def uw0_def set_material_def)
  show ?thesis
    using h1 h2 h3 m update0 C10_outside_hull_is_air [OF h1 h2 h3] by simp
qed

section \<open>Properties of the coupling loop\<close>

subsection \<open>What each operation leaves unchanged\<close>

lemma after_update_fields:
  "time_years (after_update ext s m) = time_years s"
  "checkpoint_number (after_update ext s m) = checkpoint_number s"
  "next_checkpoint_years (after_update ext s m) = next_checkpoint_years s"
  "checkpoint_interval (after_update ext s m) = checkpoint_interval s"
  "model_started (after_update ext s m) = model_started s"
  "disp_inserted (after_update ext s m) = disp_inserted s"
  "surface_tracers (after_update ext s m) = surface_tracers s"
  "checkpoints (after_update ext s m) = checkpoints s"
  "badlands_model (after_update ext s m) = badlands_model s"
  by (simp_all add: after_update_def split: prod.splits)

lemma call_run_to_time_fields:
  "time_years (call_run_to_time ext t s) = time_years s"
  "checkpoint_number (call_run_to_time ext t s) = checkpoint_number s"
  "next_checkpoint_years (call_run_to_time ext t s) = next_checkpoint_years s"
  "checkpoint_interval (call_run_to_time ext t s) = checkpoint_interval s"
  "model_started (call_run_to_time ext t s) = model_started s"
  "disp_inserted (call_run_to_time ext t s) = disp_inserted s"
  "surface_tracers (call_run_to_time ext t s) = surface_tracers s"
  "checkpoints (call_run_to_time ext t s) = checkpoints s"
  "T_disp (badlands_model (call_run_to_time ext t s)) = T_disp (badlands_model s)"
  "injected_disps (badlands_model (call_run_to_time ext t s)) = injected_disps (badlands_model s)"
  by (simp_all add: call_run_to_time_def split: prod.splits)

lemma set_material_fields:
  "time_years (set_material d s) = time_years s"
  "checkpoint_number (set_material d s) = checkpoint_number s"
  "next_checkpoint_years (set_material d s) = next_checkpoint_years s"
  "checkpoint_interval (set_material d s) = checkpoint_interval s"
  "model_started (set_material d s) = model_started s"
  "disp_inserted (set_material d s) = disp_inserted s"
  "surface_tracers (set_material d s) = surface_tracers s"
  "checkpoints (set_material d s) = checkpoints s"
  "badlands_model (set_material d s) = badlands_model s"
  by (simp_all add: set_material_def)

lemma update_material_types_cases:
  "(update_material_types ext s = Inr s' \<or> update_material_types ext s = Inl (e, s'))
     \<Longrightarrow> s' = s \<or> (\<exists>d. s' = set_material d s)"
  by (auto simp: update_material_types_def Let_def split: if_splits sum.splits)

lemma update_material_types_fields:
  assumes "update_material_types ext s = Inr s' \<or> update_material_types ext s = Inl (e, s')"
  shows "time_years s' = time_years s"
    "checkpoint_number s' = checkpoint_number s"
    "next_checkpoint_years s' = next_checkpoint_years s"
    "checkpoint_interval s' = checkpoint_interval s"
    "model_started s' = model_started s"
    "disp_inserted s' = disp_inserted s"
    "surface_tracers s' = surface_tracers s"
    "checkpoints s' = checkpoints s"
    "badlands_model s' = badlands_model s"
  using update_material_types_cases [OF assms] by (auto simp: set_material_fields)

lemma call_checkpoint_function_fields:
  "time_years (call_checkpoint_function ext s) = time_years s"
  "checkpoint_number (call_checkpoint_function ext s) = checkpoint_number s"
  "next_checkpoint_years (call_checkpoint_function ext s) = next_checkpoint_years s"
  "checkpoint_interval (call_checkpoint_function ext s) = checkpoint_interval s"
  "model_started (call_checkpoint_function ext s) = model_started s"
  "disp_inserted (call_checkpoint_function ext s) = disp_inserted s"
  "surface_tracers (call_checkpoint_function ext s) = surface_tracers s"
  "checkpoints (call_checkpoint_function ext s) = checkpoints s @ [(checkpoint_number s, time_years s)]"
  "badlands_model (call_checkpoint_function ext s) = badlands_model s"
  "uw (call_checkpoint_function ext s) = uw s"
  by (simp_all add: call_checkpoint_function_def)

lemma insert_T_disp_fields:
  assumes "insert_T_disp time dt (set_merge3d s) = Inr s' \<or> insert_T_disp time dt (set_merge3d s) = Inl (e, s')"
  shows "time_years s' = time_years s"
    "checkpoint_number s' = checkpoint_number s"
    "next_checkpoint_years s' = next_checkpoint_years s"
    "checkpoint_interval s' = checkpoint_interval s"
    "model_started s' = model_started s"
    "surface_tracers s' = surface_tracers s"
    "checkpoints s' = checkpoints s"
    "uw s' = uw s"
    "world s' = world s"
    "material_map s' = material_map s"
    "disable_material_changes s' = disable_material_changes s"
  using assms
  by (auto simp: insert_T_disp_def set_merge3d_def split: if_splits list.splits)

lemma insert_T_disp_Inr:
  assumes "insert_T_disp time dt (set_merge3d s) = Inr s'"
  shows "disp_inserted s'" "T_disp (badlands_model s') = rows_after s time dt"
    "injected_disps (badlands_model s') = injected_disps (badlands_model s)"
  using assms
  by (auto simp: insert_T_disp_def set_merge3d_def rows_after_def split: if_splits list.splits)

lemma insert_T_disp_Inl:
  assumes "insert_T_disp time dt (set_merge3d s) = Inl (e, s')"
  shows "disp_inserted s' = disp_inserted s" "T_disp (badlands_model s') = T_disp (badlands_model s)"
  using assms
  by (auto simp: insert_T_disp_def set_merge3d_def split: if_splits list.splits)

lemma inject_fields:
  assumes "inject_badlands_displacement time dt disp s = Inr s'
         \<or> inject_badlands_displacement time dt disp s = Inl (e, s')"
  shows "time_years s' = time_years s"
    "checkpoint_number s' = checkpoint_number s"
    "next_checkpoint_years s' = next_checkpoint_years s"
    "checkpoint_interval s' = checkpoint_interval s"
    "model_started s' = model_started s"
    "surface_tracers s' = surface_tracers s"
    "checkpoints s' = checkpoints s"
  using assms
  by (auto simp: inject_badlands_displacement_def set_injected_disps_def
      split: sum.splits dest: insert_T_disp_fields [OF disjI1] insert_T_disp_fields [OF disjI2])

lemma inject_Inr:
  assumes "inject_badlands_displacement time dt disp s = Inr s'"
  shows "disp_inserted s'" "T_disp (badlands_model s') = rows_after s time dt"
    "injected_disps (badlands_model s') = disp"
  using assms
  by (auto simp: inject_badlands_displacement_def set_injected_disps_def
      split: sum.splits dest: insert_T_disp_Inr)

lemma inject_Inl:
  assumes "inject_badlands_displacement time dt disp s = Inl (e, s')"
  shows "disp_inserted s' = disp_inserted s"
    "T_disp (badlands_model s') = T_disp (badlands_model s)"
  using assms
  by (auto simp: inject_badlands_displacement_def
      split: sum.splits dest: insert_T_disp_Inl)

lemma inject_smooth_fields:
  assumes "inject_badlands_displacement_smooth ext time dt disp sigma s = Inr s'
         \<or> inject_badlands_displacement_smooth ext time dt disp sigma s = Inl (e, s')"
  shows "time_years s' = time_years s"
    "checkpoint_number s' = checkpoint_number s"
    "next_checkpoint_years s' = next_checkpoint_years s"
    "checkpoint_interval s' = checkpoint_interval s"
    "model_started s' = model_started s"
    "surface_tracers s' = surface_tracers s"
    "checkpoints s' = checkpoints s"
  using assms
  by (auto simp: inject_badlands_displacement_smooth_def set_injected_disps_def Let_def
      split: sum.splits if_splits
      dest: insert_T_disp_fields [OF disjI1] insert_T_disp_fields [OF disjI2])

lemma inject_smooth_Inr:
  assumes "inject_badlands_displacement_smooth ext time dt disp sigma s = Inr s'"
  shows "disp_inserted s'" "T_disp (badlands_model s') = rows_after s time dt"
  using assms
  by (auto simp: inject_badlands_displacement_smooth_def set_injected_disps_def Let_def
      split: sum.splits if_splits dest: insert_T_disp_Inr)

lemma inject_smooth_Inl:
  assumes "inject_badlands_displacement_smooth ext time dt disp sigma s = Inl (e, s')"
  shows "(disp_inserted s' = disp_inserted s
            \<and> T_disp (badlands_model s') = T_disp (badlands_model s))
         \<or> (disp_inserted s' \<and> T_disp (badlands_model s') = rows_after s time dt)"
  using assms
  by (auto simp: inject_badlands_displacement_smooth_def Let_def
      split: sum.splits if_splits dest: insert_T_disp_Inl insert_T_disp_Inr)

lemma advected_fields:
  "time_years (advected ext e nxt s) = time_years s"
  "checkpoint_number (advected ext e nxt s) = checkpoint_number s"
  "next_checkpoint_years (advected ext e nxt s) = next_checkpoint_years s"
  "checkpoint_interval (advected ext e nxt s) = checkpoint_interval s"
  "model_started (advected ext e nxt s) = model_started s"
  "disp_inserted (advected ext e nxt s) = disp_inserted s"
  "checkpoints (advected ext e nxt s) = checkpoints s"
  "badlands_model (advected ext e nxt s) = badlands_model s"
  by (simp_all add: advected_def Let_def after_update_fields)

lemma rows_after_advected:
  "rows_after (advected ext e nxt s) time dt = rows_after s time dt"
  by (simp add: rows_after_def advected_fields)

lemma step_unfold:
  assumes "next_checkpoint_years s = Some nxt"
  shows "step ext e sg s =
     (if \<not> dt_seconds_of ext e nxt s \<le> max_seconds_of e nxt s
      then Inl (AssertionError_dt (max_seconds_of e nxt s) (dt_seconds_of ext e nxt s),
                after_update ext s (max_seconds_of e nxt s))
      else
        (case (if sg = 0
               then inject_badlands_displacement (time_years s) (dt_years_of ext e nxt s)
                      (tracer_disp_of ext e nxt s) (advected ext e nxt s)
               else inject_badlands_displacement_smooth ext (time_years s) (dt_years_of ext e nxt s)
                      (tracer_disp_of ext e nxt s) sg (advected ext e nxt s)) of
           Inl x \<Rightarrow> Inl x
         | Inr s3 \<Rightarrow>
             (case update_material_types ext
                     (call_run_to_time ext (time_years s3 + dt_years_of ext e nxt s) s3) of
                Inl x \<Rightarrow> Inl x
              | Inr s5 \<Rightarrow>
                  Inr (finish ext (dt_seconds_of ext e nxt s = max_seconds_of e nxt s)
                         (dt_years_of ext e nxt s) s5))))"
  using assms
  unfolding step_def dt_seconds_of_def dt_years_of_def advected_def tracer_disp_of_def
    finish_def Let_def
  by (simp add: after_update_fields)

lemma finish_fields:
  "time_years (finish ext w dty s5) = time_years s5 + dty"
  "checkpoint_interval (finish ext w dty s5) = checkpoint_interval s5"
  "model_started (finish ext w dty s5) = model_started s5"
  "disp_inserted (finish ext w dty s5) = disp_inserted s5"
  "surface_tracers (finish ext w dty s5) = surface_tracers s5"
  "badlands_model (finish ext w dty s5) = badlands_model s5"
  "checkpoints (finish ext w dty s5) =
     (if w then checkpoints s5 @ [(checkpoint_number s5, time_years s5)] else checkpoints s5)"
  "checkpoint_number (finish ext w dty s5) =
     (if w then Suc (checkpoint_number s5) else checkpoint_number s5)"
  "next_checkpoint_years (finish ext w dty s5) =
     (if w then map_option (\<lambda>n. n + checkpoint_interval s5) (next_checkpoint_years s5)
      else next_checkpoint_years s5)"
  by (simp_all add: finish_def Let_def call_checkpoint_function_fields)

lemma step_Inr_parts:
  assumes nx: "next_checkpoint_years s = Some nxt" and st: "step ext e sg s = Inr s'"
  obtains s3 s5 where
    "dt_seconds_of ext e nxt s \<le> max_seconds_of e nxt s"
    "(if sg = 0
      then inject_badlands_displacement (time_years s) (dt_years_of ext e nxt s)
             (tracer_disp_of ext e nxt s) (advected ext e nxt s)
      else inject_badlands_displacement_smooth ext (time_years s) (dt_years_of ext e nxt s)
             (tracer_disp_of ext e nxt s) sg (advected ext e nxt s)) = Inr s3"
    "update_material_types ext
       (call_run_to_time ext (time_years s3 + dt_years_of ext e nxt s) s3) = Inr s5"
    "s' = finish ext (dt_seconds_of ext e nxt s = max_seconds_of e nxt s)
            (dt_years_of ext e nxt s) s5"
  using st unfolding step_unfold [OF nx]
  by (auto split: if_splits sum.splits)

lemma injected_Inr_fields:
  assumes "(if sg = 0
      then inject_badlands_displacement time dt disp s
      else inject_badlands_displacement_smooth ext time dt disp sg s) = Inr s3"
  shows "time_years s3 = time_years s"
    "checkpoint_number s3 = checkpoint_number s"
    "next_checkpoint_years s3 = next_checkpoint_years s"
    "checkpoint_interval s3 = checkpoint_interval s"
    "model_started s3 = model_started s"
    "surface_tracers s3 = surface_tracers s"
    "checkpoints s3 = checkpoints s"
    "disp_inserted s3"
    "T_disp (badlands_model s3) = rows_after s time dt"
    "sg = 0 \<Longrightarrow> injected_disps (badlands_model s3) = disp"
  using assms
  by (auto split: if_splits
      simp: inject_fields [OF disjI1] inject_smooth_fields [OF disjI1]
      dest: inject_Inr inject_smooth_Inr)

lemma step_Inr:
  assumes nx: "next_checkpoint_years s = Some nxt" and st: "step ext e sg s = Inr s'"
  shows "dt_seconds_of ext e nxt s \<le> max_seconds_of e nxt s"
    "time_years s' = time_years s + dt_years_of ext e nxt s"
    "checkpoint_interval s' = checkpoint_interval s"
    "model_started s' = model_started s"
    "checkpoints s' =
       (if dt_seconds_of ext e nxt s = max_seconds_of e nxt s
        then checkpoints s @ [(checkpoint_number s, time_years s)] else checkpoints s)"
    "checkpoint_number s' =
       (if dt_seconds_of ext e nxt s = max_seconds_of e nxt s
        then Suc (checkpoint_number s) else checkpoint_number s)"
    "next_checkpoint_years s' =
       (if dt_seconds_of ext e nxt s = max_seconds_of e nxt s
        then Some (nxt + checkpoint_interval s) else Some nxt)"
    "disp_inserted s'"
    "T_disp (badlands_model s') = rows_after s (time_years s) (dt_years_of ext e nxt s)"
    "surface_tracers s' = surface_tracers (advected ext e nxt s)"
    "sg = 0 \<Longrightarrow> injected_disps (badlands_model s') = tracer_disp_of ext e nxt s"
proof -
  from nx st obtain s3 s5 where
    le: "dt_seconds_of ext e nxt s \<le> max_seconds_of e nxt s"
    and inj: "(if sg = 0
      then inject_badlands_displacement (time_years s) (dt_years_of ext e nxt s)
             (tracer_disp_of ext e nxt s) (advected ext e nxt s)
      else inject_badlands_displacement_smooth ext (time_years s) (dt_years_of ext e nxt s)
             (tracer_disp_of ext e nxt s) sg (advected ext e nxt s)) = Inr s3"
    and upd: "update_material_types ext
       (call_run_to_time ext (time_years s3 + dt_years_of ext e nxt s) s3) = Inr s5"
    and fin: "s' = finish ext (dt_seconds_of ext e nxt s = max_seconds_of e nxt s)
            (dt_years_of ext e nxt s) s5"
    by (rule step_Inr_parts)
  note i = injected_Inr_fields [OF inj]
  note u = update_material_types_fields [OF disjI1, OF upd]
  note r = call_run_to_time_fields
  note a = advected_fields
  show "dt_seconds_of ext e nxt s \<le> max_seconds_of e nxt s" by (rule le)
  show "time_years s' = time_years s + dt_years_of ext e nxt s"
    by (simp add: fin finish_fields u r i a)
  show "checkpoint_interval s' = checkpoint_interval s"
    by (simp add: fin finish_fields u r i a)
  show "model_started s' = model_started s"
    by (simp add: fin finish_fields u r i a)
  show "checkpoints s' =
       (if dt_seconds_of ext e nxt s = max_seconds_of e nxt s
        then checkpoints s @ [(checkpoint_number s, time_years s)] else checkpoints s)"
    by (simp add: fin finish_fields u r i a)
  show "checkpoint_number s' =
       (if dt_seconds_of ext e nxt s = max_seconds_of e nxt s
        then Suc (checkpoint_number s) else checkpoint_number s)"
    by (simp add: fin finish_fields u r i a)
  show "next_checkpoint_years s' =
       (if dt_seconds_of ext e nxt s = max_seconds_of e nxt s
        then Some (nxt + checkpoint_interval s) else Some nxt)"
    by (simp add: fin finish_fields u r i a nx)
  show "disp_inserted s'"
    by (simp add: fin finish_fields u r i)
  show "T_disp (badlands_model s') = rows_after s (time_years s) (dt_years_of ext e nxt s)"
    by (simp add: fin finish_fields u r i rows_after_advected)
  show "surface_tracers s' = surface_tracers (advected ext e nxt s)"
    by (simp add: fin finish_fields u r i)
  show "injected_disps (badlands_model s') = tracer_disp_of ext e nxt s" if "sg = 0"
    using that by (simp add: fin finish_fields u r i)
qed

lemma step_Inr_next:
  "step ext e sg s = Inr s' \<Longrightarrow> \<exists>nxt. next_checkpoint_years s = Some nxt"
  by (simp add: step_def split: option.splits)

lemma step_Inl:
  assumes st: "step ext e sg s = Inl (err, s')"
  shows "time_years s' = time_years s"
    "checkpoint_number s' = checkpoint_number s"
    "next_checkpoint_years s' = next_checkpoint_years s"
    "checkpoint_interval s' = checkpoint_interval s"
    "model_started s' = model_started s"
    "checkpoints s' = checkpoints s"
proof -
  have "time_years s' = time_years s \<and> checkpoint_number s' = checkpoint_number s
      \<and> next_checkpoint_years s' = next_checkpoint_years s
      \<and> checkpoint_interval s' = checkpoint_interval s
      \<and> model_started s' = model_started s \<and> checkpoints s' = checkpoints s"
  proof (cases "next_checkpoint_years s")
    case None
    with st show ?thesis by (simp add: step_def)
  next
    case (Some nxt)
    let ?inj = "(if sg = 0
      then inject_badlands_displacement (time_years s) (dt_years_of ext e nxt s)
             (tracer_disp_of ext e nxt s) (advected ext e nxt s)
      else inject_badlands_displacement_smooth ext (time_years s) (dt_years_of ext e nxt s)
             (tracer_disp_of ext e nxt s) sg (advected ext e nxt s))"
    from st consider
      (assert) "s' = after_update ext s (max_seconds_of e nxt s)"
      | (inject) "?inj = Inl (err, s')"
      | (material) s3 where "?inj = Inr s3"
          "update_material_types ext
             (call_run_to_time ext (time_years s3 + dt_years_of ext e nxt s) s3) = Inl (err, s')"
      unfolding step_unfold [OF Some] by (auto split: if_splits sum.splits)
    then show ?thesis
    proof cases
      case assert
      then show ?thesis by (simp add: after_update_fields)
    next
      case inject
      then show ?thesis
        by (auto split: if_splits
            simp: inject_fields [OF disjI2] inject_smooth_fields [OF disjI2] advected_fields)
    next
      case material
      note i = injected_Inr_fields [OF material(1)]
      note u = update_material_types_fields [OF disjI2, OF material(2)]
      show ?thesis
        by (simp add: u call_run_to_time_fields i advected_fields)
    qed
  qed
  then show "time_years s' = time_years s"
    "checkpoint_number s' = checkpoint_number s"
    "next_checkpoint_years s' = next_checkpoint_years s"
    "checkpoint_interval s' = checkpoint_interval s"
    "model_started s' = model_started s"
    "checkpoints s' = checkpoints s"
    by simp_all
qed

subsection \<open>Start-up\<close>

lemma startup_cases:
  obtains (early) e s1 where "startup ext s = Inl (e, s1)"
      "s1 = s \<or> s1 = s\<lparr>badlands_model := (badlands_model s)
          \<lparr>disp3d := True, region := 0, tDisplay := checkpoint_interval s\<rparr>\<rparr>"
  | (run) "\<not> model_started s"
      "startup ext s =
         (case update_material_types ext (seeded s) of
            Inl e \<Rightarrow> Inl e
          | Inr s3 \<Rightarrow> Inr (armed ext s3))"
proof (cases "model_started s")
  case True
  then have "startup ext s = Inl (AssertionError_model_started, s)"
    by (simp add: startup_def)
  then show ?thesis by (rule early) simp
next
  case ns: False
  show ?thesis
  proof (cases "rectX (badlands_model s) = [] \<or> rectY (badlands_model s) = []")
    case True
    with ns have "startup ext s = Inl (ValueError, s)"
      by (simp add: startup_def Let_def)
    then show ?thesis by (rule early) simp
  next
    case ne: False
    let ?bl = "(Min (set (rectX (badlands_model s))), Max (set (rectX (badlands_model s))),
                Min (set (rectY (badlands_model s))), Max (set (rectY (badlands_model s))))"
    let ?uw = "(fst (minCoord (uw s)), fst (maxCoord (uw s)),
                fst (snd (minCoord (uw s))), fst (snd (maxCoord (uw s))))"
    show ?thesis
    proof (cases "?bl \<noteq> ?uw")
      case True
      with ns ne have "startup ext s = Inl (AssertionError_domain ?bl ?uw, s)"
        unfolding startup_def Let_def by (simp only: if_False if_True simp_thms)
      then show ?thesis by (rule early) simp
    next
      case dom: False
      show ?thesis
      proof (cases "length (rectX (badlands_model s)) \<noteq> length (rectY (badlands_model s))
          \<or> length (rectX (badlands_model s)) \<noteq> length (rectZ (badlands_model s))")
        case True
        with ns ne dom have "startup ext s = Inl (ValueError, s\<lparr>badlands_model := (badlands_model s)
          \<lparr>disp3d := True, region := 0, tDisplay := checkpoint_interval s\<rparr>\<rparr>)"
          unfolding startup_def Let_def by (simp only: if_False if_True simp_thms)
        then show ?thesis by (rule early) simp
      next
        case False
        with ns ne dom have "startup ext s =
         (case update_material_types ext (seeded s) of
            Inl e \<Rightarrow> Inl e
          | Inr s3 \<Rightarrow> Inr (armed ext s3))"
          unfolding startup_def seeded_def armed_def Let_def
          by (simp only: if_False if_True simp_thms)
        with ns show ?thesis by (rule run)
      qed
    qed
  qed
qed

lemma seeded_fields:
  "time_years (seeded s) = time_years s"
  "checkpoint_number (seeded s) = checkpoint_number s"
  "next_checkpoint_years (seeded s) = next_checkpoint_years s"
  "checkpoint_interval (seeded s) = checkpoint_interval s"
  "model_started (seeded s) = model_started s"
  "disp_inserted (seeded s) = disp_inserted s"
  "checkpoints (seeded s) = checkpoints s"
  "T_disp (badlands_model (seeded s)) = T_disp (badlands_model s)"
  by (simp_all add: seeded_def)

lemma armed_fields:
  "model_started (armed ext s3)"
  "checkpoints (armed ext s3) = checkpoints s3 @ [(checkpoint_number s3, time_years s3)]"
  "checkpoint_number (armed ext s3) = Suc (checkpoint_number s3)"
  "next_checkpoint_years (armed ext s3) = Some (checkpoint_interval s3)"
  "checkpoint_interval (armed ext s3) = checkpoint_interval s3"
  "time_years (armed ext s3) = time_years s3"
  "disp_inserted (armed ext s3) = disp_inserted s3"
  "T_disp (badlands_model (armed ext s3)) = T_disp (badlands_model s3)"
  by (simp_all add: armed_def Let_def call_checkpoint_function_def)

lemma startup_Inr:
  assumes "startup ext s = Inr s1"
  shows "\<not> model_started s" "model_started s1"
    "checkpoints s1 = checkpoints s @ [(checkpoint_number s, time_years s)]"
    "checkpoint_number s1 = Suc (checkpoint_number s)"
    "next_checkpoint_years s1 = Some (checkpoint_interval s)"
    "checkpoint_interval s1 = checkpoint_interval s"
    "time_years s1 = time_years s"
    "disp_inserted s1 = disp_inserted s"
    "T_disp (badlands_model s1) = T_disp (badlands_model s)"
proof -
  have "\<not> model_started s \<and> (\<exists>s3. update_material_types ext (seeded s) = Inr s3 \<and> s1 = armed ext s3)"
  proof (cases rule: startup_cases [of ext s])
    case (early e s1)
    with assms show ?thesis by simp
  next
    case run
    with assms show ?thesis by (auto split: sum.splits)
  qed
  then obtain s3 where ns: "\<not> model_started s"
    and upd: "update_material_types ext (seeded s) = Inr s3" and s1: "s1 = armed ext s3"
    by blast
  note u = update_material_types_fields [OF disjI1, OF upd]
  show "\<not> model_started s" by (rule ns)
  show "model_started s1"
    "checkpoints s1 = checkpoints s @ [(checkpoint_number s, time_years s)]"
    "checkpoint_number s1 = Suc (checkpoint_number s)"
    "next_checkpoint_years s1 = Some (checkpoint_interval s)"
    "checkpoint_interval s1 = checkpoint_interval s"
    "time_years s1 = time_years s"
    "disp_inserted s1 = disp_inserted s"
    "T_disp (badlands_model s1) = T_disp (badlands_model s)"
    by (simp_all add: s1 armed_fields u seeded_fields)
qed

lemma startup_Inl:
  assumes "startup ext s = Inl (err, s1)"
  shows "model_started s1 = model_started s"
    "checkpoints s1 = checkpoints s"
    "checkpoint_number s1 = checkpoint_number s"
    "next_checkpoint_years s1 = next_checkpoint_years s"
    "checkpoint_interval s1 = checkpoint_interval s"
    "time_years s1 = time_years s"
    "disp_inserted s1 = disp_inserted s"
    "T_disp (badlands_model s1) = T_disp (badlands_model s)"
proof -
  have "model_started s1 = model_started s \<and> checkpoints s1 = checkpoints s
      \<and> checkpoint_number s1 = checkpoint_number s
      \<and> next_checkpoint_years s1 = next_checkpoint_years s
      \<and> checkpoint_interval s1 = checkpoint_interval s
      \<and> time_years s1 = time_years s
      \<and> disp_inserted s1 = disp_inserted s
      \<and> T_disp (badlands_model s1) = T_disp (badlands_model s)"
  proof (cases rule: startup_cases [of ext s])
    case (early e s2)
    with assms have "s1 = s2" by simp
    with early(2) show ?thesis by auto
  next
    case run
    with assms have "update_material_types ext (seeded s) = Inl (err, s1)"
      by (auto split: sum.splits)
    note u = update_material_types_fields [OF disjI2, OF this]
    show ?thesis by (simp add: u seeded_fields)
  qed
  then show "model_started s1 = model_started s"
    "checkpoints s1 = checkpoints s"
    "checkpoint_number s1 = checkpoint_number s"
    "next_checkpoint_years s1 = next_checkpoint_years s"
    "checkpoint_interval s1 = checkpoint_interval s"
    "time_years s1 = time_years s"
    "disp_inserted s1 = disp_inserted s"
    "T_disp (badlands_model s1) = T_disp (badlands_model s)"
    by simp_all
qed

subsection \<open>Invariants of a run\<close>

lemma run_loop_invariant:
  assumes "P s"
    and "\<And>s s'. P s \<Longrightarrow> step ext e sg s = Inr s' \<Longrightarrow> P s'"
    and "\<And>s err s'. P s \<Longrightarrow> step ext e sg s = Inl (err, s') \<Longrightarrow> P s'"
  shows "P (outcome_state (run_loop ext e sg fuel s))"
  using assms(1)
proof (induction fuel arbitrary: s)
  case 0
  then show ?case by simp
next
  case (Suc fuel)
  show ?case
  proof (cases "time_years s < e")
    case False
    then show ?thesis using Suc.prems by simp
  next
    case True
    show ?thesis
    proof (cases "step ext e sg s")
      case (Inl x)
      obtain err s' where x: "x = (err, s')" by (cases x)
      with Inl assms(3) [OF Suc.prems] have "P s'" by simp
      with Inl x True show ?thesis by simp
    next
      case (Inr s')
      with assms(2) [OF Suc.prems] have "P s'" by simp
      from Suc.IH [OF this] Inr True show ?thesis by simp
    qed
  qed
qed

lemma run_for_years_invariant:
  assumes "P s"
    and "\<And>s s'. P s \<Longrightarrow> startup ext s = Inr s' \<Longrightarrow> Q s'"
    and "\<And>s err s'. P s \<Longrightarrow> startup ext s = Inl (err, s') \<Longrightarrow> P s'"
    and "\<And>s. P s \<Longrightarrow> model_started s \<Longrightarrow> Q s"
    and "\<And>e s s'. Q s \<Longrightarrow> step ext e sg s = Inr s' \<Longrightarrow> Q s'"
    and "\<And>e s err s'. Q s \<Longrightarrow> step ext e sg s = Inl (err, s') \<Longrightarrow> Q s'"
    and "\<And>s. Q s \<Longrightarrow> P s"
  shows "P (outcome_state (run_for_years ext years sg fuel s))"
proof (cases "model_started s")
  case True
  with assms(1) have "Q s" by (rule assms(4))
  then have "Q (outcome_state (run_loop ext (time_years s + years) sg fuel s))"
    by (rule run_loop_invariant) (erule (1) assms(5), erule (1) assms(6))
  then show ?thesis using True by (simp add: run_for_years_def assms(7))
next
  case False
  show ?thesis
  proof (cases "startup ext s")
    case (Inl x)
    obtain err s' where x: "x = (err, s')" by (cases x)
    with Inl assms(3) [OF assms(1)] have "P s'" by simp
    with Inl x False show ?thesis by (simp add: run_for_years_def)
  next
    case (Inr s1)
    with assms(2) [OF assms(1)] have "Q s1" by simp
    then have "Q (outcome_state (run_loop ext (time_years s1 + years) sg fuel s1))"
      by (rule run_loop_invariant) (erule (1) assms(5), erule (1) assms(6))
    then show ?thesis using False Inr by (simp add: run_for_years_def assms(7))
  qed
qed

lemma after_steps_invariant:
  assumes "P s" "after_steps ext e sg n s = Some s'"
    and "\<And>s s'. P s \<Longrightarrow> step ext e sg s = Inr s' \<Longrightarrow> P s'"
  shows "P s'"
  using assms(1,2)
proof (induction n arbitrary: s)
  case 0
  then show ?case by simp
next
  case (Suc n)
  from Suc.prems(2) obtain s1 where s1: "step ext e sg s = Inr s1"
    and rest: "after_steps ext e sg n s1 = Some s'"
    by (auto split: if_splits sum.splits)
  from assms(3) [OF Suc.prems(1) s1] have "P s1" .
  from Suc.IH [OF this rest] show ?case .
qed






lemma on_schedule_cadence: "on_schedule s \<longleftrightarrow> model_started s \<and> cadence s"
  by (simp add: on_schedule_def cadence_def)

lemma on_schedule_step_Inr:
  assumes "on_schedule s" "step ext e sg s = Inr s'"
  shows "on_schedule s'"
proof -
  from step_Inr_next [OF assms(2)] obtain nxt where nx: "next_checkpoint_years s = Some nxt" ..
  note f = step_Inr(3,4,6,7) [OF nx assms(2)]
  from assms(1) nx have n: "model_started s" "1 \<le> checkpoint_number s"
    "nxt = real (checkpoint_number s) * checkpoint_interval s"
    by (simp_all add: on_schedule_def)
  show ?thesis
    unfolding on_schedule_def f using n by (simp add: algebra_simps)
qed

lemma on_schedule_step_Inl:
  assumes "on_schedule s" "step ext e sg s = Inl (err, s')"
  shows "on_schedule s'"
  using assms(1) by (simp add: on_schedule_def step_Inl [OF assms(2)])

lemma cadence_startup_Inr:
  assumes "cadence s" "startup ext s = Inr s'"
  shows "on_schedule s'"
  using assms(1) startup_Inr(1) [OF assms(2)]
  by (simp add: on_schedule_def cadence_def startup_Inr [OF assms(2)])

lemma cadence_startup_Inl:
  assumes "cadence s" "startup ext s = Inl (err, s')"
  shows "cadence s'"
  using assms(1) unfolding cadence_def startup_Inl [OF assms(2)] .

lemma cadence_run:
  assumes "cadence s"
  shows "cadence (outcome_state (run_for_years ext years sg fuel s))"
  using assms
proof (rule run_for_years_invariant [where Q = on_schedule], goal_cases)
  case (1 s s')
  then show ?case by (rule cadence_startup_Inr)
next
  case (2 s err s')
  then show ?case by (rule cadence_startup_Inl)
next
  case (3 s)
  then show ?case by (simp add: on_schedule_cadence)
next
  case (4 e s s')
  then show ?case by (rule on_schedule_step_Inr)
next
  case (5 e s err s')
  then show ?case by (rule on_schedule_step_Inl)
next
  case (6 s)
  then show ?case by (simp add: on_schedule_cadence)
qed

lemma interval_run:
  "checkpoint_interval (outcome_state (run_for_years ext years sg fuel s)) = checkpoint_interval s"
proof -
  define c where "c = checkpoint_interval s"
  have "checkpoint_interval s = c" by (simp add: c_def)
  then have "checkpoint_interval (outcome_state (run_for_years ext years sg fuel s)) = c"
  proof (rule run_for_years_invariant [where P = "\<lambda>s. checkpoint_interval s = c"
        and Q = "\<lambda>s. checkpoint_interval s = c"], goal_cases)
    case (1 s s')
    then show ?case by (simp add: startup_Inr)
  next
    case (2 s err s')
    then show ?case by (simp add: startup_Inl)
  next
    case (3 s)
    then show ?case by simp
  next
    case (4 e s s')
    from step_Inr_next [OF 4(2)] obtain nxt where "next_checkpoint_years s = Some nxt" ..
    from step_Inr(3) [OF this 4(2)] 4(1) show ?case by simp
  next
    case (5 e s err s')
    then show ?case by (simp add: step_Inl)
  next
    case (6 s)
    then show ?case .
  qed
  then show ?thesis by (simp add: c_def)
qed

section \<open>The claims about the coupling loop\<close>

subsection \<open>The concrete model, evaluated\<close>

lemma startup0: "startup ext0 model0 = Inr started0"
  by (simp add: startup_def update_material_types_def determine_particle_state_def below_def
      update_particle_def set_material_def call_checkpoint_function_def
      model0_defs started0_def Let_def)

lemmas step0_defs = step_def max_seconds_of_def after_update_def SECONDS_PER_YEAR_def scale_disp_def
      inject_badlands_displacement_def insert_T_disp_def set_merge3d_def set_injected_disps_def
      call_run_to_time_def
      update_material_types_def determine_particle_state_def below_def
      update_particle_def set_material_def call_checkpoint_function_def
      uw0_def bl0_def ext0_def started0_def Let_def

lemma step0: "step ext0 10000 0 started0 = Inr stepped0"
  by (simp add: step0_defs stepped0_def)

lemma step_half0: "step ext_half 10000 0 started0 = Inr halfway0"
  by (simp add: step0_defs ext_half_def halfway0_def)

lemma run0: "run_for_years ext0 10000 0 1 model0 = Returned stepped0"
proof -
  have m: "\<not> model_started model0" "time_years started0 = 0" "time_years stepped0 = 10000"
    by (simp_all add: model0_defs started0_def stepped0_def)
  have "run_loop ext0 10000 0 (Suc 0) started0 = Returned stepped0"
    using step0 m by simp
  then show ?thesis
    by (simp add: run_for_years_def startup0 m)
qed

lemma seconds0:
  "max_seconds_of 10000 10000 started0 = 315360000000"
  "dt_seconds_of ext0 10000 10000 started0 = 315360000000"
  "dt_seconds_of ext_half 10000 10000 started0 = 157680000000"
  "dt_seconds_of ext_over 10000 10000 started0 = 315360000001"
  by (simp_all add: max_seconds_of_def dt_seconds_of_def SECONDS_PER_YEAR_def started0_def
      ext0_def ext_half_def ext_over_def)

subsection \<open>The checkpoint callback\<close>



subsection \<open>The displacement history\<close>

lemma insert_T_disp_nonempty:
  "insert_T_disp time dt (set_merge3d s) = Inr s' \<Longrightarrow> disp_inserted s \<Longrightarrow>
     T_disp (badlands_model s) \<noteq> []"
  by (auto simp: insert_T_disp_def set_merge3d_def split: if_splits list.splits)

lemma injected_nonempty:
  assumes "(if sg = 0
      then inject_badlands_displacement time dt disp s
      else inject_badlands_displacement_smooth ext time dt disp sg s) = Inr s3"
    and "disp_inserted s"
  shows "T_disp (badlands_model s) \<noteq> []"
  using assms
  by (auto simp: inject_badlands_displacement_def inject_badlands_displacement_smooth_def Let_def
      split: if_splits sum.splits dest: insert_T_disp_nonempty)

lemma step_Inr_nonempty:
  assumes "step ext e sg s = Inr s'" "disp_inserted s"
  shows "T_disp (badlands_model s) \<noteq> []"
proof -
  from step_Inr_next [OF assms(1)] obtain nxt where nx: "next_checkpoint_years s = Some nxt" ..
  from nx assms(1) obtain s3 where
    "(if sg = 0
      then inject_badlands_displacement (time_years s) (dt_years_of ext e nxt s)
             (tracer_disp_of ext e nxt s) (advected ext e nxt s)
      else inject_badlands_displacement_smooth ext (time_years s) (dt_years_of ext e nxt s)
             (tracer_disp_of ext e nxt s) sg (advected ext e nxt s)) = Inr s3"
    by (rule step_Inr_parts)
  from injected_nonempty [OF this] assms(2) show ?thesis
    by (simp add: advected_fields)
qed

lemma after_steps_rows:
  "after_steps ext e sg n s = Some s' \<Longrightarrow> 1 \<le> n \<Longrightarrow>
     disp_inserted s'
     \<and> (\<exists>row. T_disp (badlands_model s') =
           row # (if disp_inserted s then tl (T_disp (badlands_model s))
                  else T_disp (badlands_model s)))
     \<and> (disp_inserted s \<longrightarrow> T_disp (badlands_model s) \<noteq> [])"
proof (induction n arbitrary: s)
  case 0
  then show ?case by simp
next
  case (Suc n)
  from Suc.prems(1) obtain s1 where s1: "step ext e sg s = Inr s1"
    and rest: "after_steps ext e sg n s1 = Some s'"
    by (auto split: if_splits sum.splits)
  from step_Inr_next [OF s1] obtain nxt where nx: "next_checkpoint_years s = Some nxt" ..
  note f = step_Inr(8,9) [OF nx s1]
  have ne: "disp_inserted s \<longrightarrow> T_disp (badlands_model s) \<noteq> []"
    using step_Inr_nonempty [OF s1] by simp
  show ?case
  proof (cases n)
    case 0
    with rest have "s' = s1" by simp
    with f ne show ?thesis by (simp add: rows_after_def)
  next
    case (Suc m)
    then have "1 \<le> n" by simp
    from Suc.IH [OF rest this] f ne show ?thesis
      by (auto simp: rows_after_def)
  qed
qed

text \<open>
  \<^bold>\<open>C3\<close>, as stated, fails: Badlands hands over a table \<open>T_disp\<close> that already
  has a row, the first turn of the loop prepends one, and the table has two rows.
\<close>

theorem C3_counterexample:
  "\<not> disp_inserted model0
   \<and> length (T_disp (badlands_model model0)) = 1
   \<and> run_for_years ext0 10000 0 1 model0 = Returned stepped0
   \<and> startup ext0 model0 = Inr started0
   \<and> after_steps ext0 10000 0 1 started0 = Some stepped0
   \<and> length (T_disp (badlands_model stepped0)) = 2"
proof -
  have "time_years started0 < 10000" by (simp add: started0_def)
  then have a: "after_steps ext0 10000 0 1 started0 = Some stepped0"
    by (simp add: step0)
  have m: "\<not> disp_inserted model0" "length (T_disp (badlands_model model0)) = 1"
    by (simp_all add: model0_defs)
  have r: "length (T_disp (badlands_model stepped0)) = 2"
    by (simp add: stepped0_def started0_def)
  show ?thesis
    using a m r run0 startup0 by simp
qed

text \<open>
  \<^bold>\<open>C3\<close>, amended. After \<open>n \<ge> 1\<close> completed turns of the loop, started in an
  object \<open>s\<close>, an injection has taken place; if none had before \<open>s\<close>, as after the
  constructor and \<open>_startup\<close>, the table \<open>T_disp\<close> is the table of \<open>s\<close> with exactly
  one row in front, so it has one row more than at the start, whatever \<open>n\<close>; if one
  had, the table keeps its length and all its rows but the first. \<open>_startup\<close> and the
  constructor do not touch the table.
\<close>

theorem C3_rows_initial_plus_one:
  "(after_steps ext end_years sigma n s = Some s' \<and> 1 \<le> n \<longrightarrow>
      disp_inserted s'
      \<and> (if disp_inserted s
          then length (T_disp (badlands_model s')) = length (T_disp (badlands_model s))
               \<and> tl (T_disp (badlands_model s')) = tl (T_disp (badlands_model s))
          else length (T_disp (badlands_model s')) = Suc (length (T_disp (badlands_model s)))
               \<and> tl (T_disp (badlands_model s')) = T_disp (badlands_model s)))
   \<and> (startup ext s = Inr s1 \<longrightarrow>
        disp_inserted s1 = disp_inserted s
        \<and> T_disp (badlands_model s1) = T_disp (badlands_model s))
   \<and> \<not> disp_inserted (LinkageModel_init u b w)
   \<and> T_disp (badlands_model (LinkageModel_init u b w)) = T_disp b"
proof (intro conjI impI)
  assume a: "after_steps ext end_years sigma n s = Some s' \<and> 1 \<le> n"
  then have r: "disp_inserted s'
     \<and> (\<exists>row. T_disp (badlands_model s') =
           row # (if disp_inserted s then tl (T_disp (badlands_model s))
                  else T_disp (badlands_model s)))
     \<and> (disp_inserted s \<longrightarrow> T_disp (badlands_model s) \<noteq> [])"
    using after_steps_rows [of ext end_years sigma n s s'] by blast
  then show "disp_inserted s'" by simp
  from r show "if disp_inserted s
          then length (T_disp (badlands_model s')) = length (T_disp (badlands_model s))
               \<and> tl (T_disp (badlands_model s')) = tl (T_disp (badlands_model s))
          else length (T_disp (badlands_model s')) = Suc (length (T_disp (badlands_model s)))
               \<and> tl (T_disp (badlands_model s')) = T_disp (badlands_model s)"
    by (cases "T_disp (badlands_model s)") auto
next
  assume "startup ext s = Inr s1"
  then show "disp_inserted s1 = disp_inserted s"
    "T_disp (badlands_model s1) = T_disp (badlands_model s)"
    by (simp_all add: startup_Inr)
next
  show "\<not> disp_inserted (LinkageModel_init u b w)"
    "T_disp (badlands_model (LinkageModel_init u b w)) = T_disp b"
    by (simp_all add: LinkageModel_init_def)
qed

theorem C3_witness:
  "after_steps ext0 10000 0 1 started0 = Some stepped0
   \<and> (1::nat) \<le> 1
   \<and> \<not> disp_inserted started0
   \<and> disp_inserted stepped0
   \<and> length (T_disp (badlands_model stepped0)) = Suc (length (T_disp (badlands_model started0)))
   \<and> tl (T_disp (badlands_model stepped0)) = T_disp (badlands_model started0)
   \<and> startup ext0 model0 = Inr started0
   \<and> T_disp (badlands_model started0) = T_disp (badlands_model model0)"
proof -
  have "time_years started0 < 10000" by (simp add: started0_def)
  then have h: "after_steps ext0 10000 0 1 started0 = Some stepped0"
    by (simp add: step0)
  have d: "\<not> disp_inserted started0" by (simp add: started0_def)
  note a = C3_rows_initial_plus_one [where ext = ext0 and end_years = 10000 and sigma = 0
      and n = 1 and s = started0 and s' = stepped0 and ?s1.0 = started0
      and u = uw0 and b = bl0 and w = "()"]
  note b = C3_rows_initial_plus_one [where ext = ext0 and end_years = 10000 and sigma = 0
      and n = 1 and s = model0 and s' = stepped0 and ?s1.0 = started0
      and u = uw0 and b = bl0 and w = "()"]
  show ?thesis
    using h d startup0 a b by simp
qed

subsection \<open>The clock and the checkpoint schedule\<close>

lemma SECONDS_PER_YEAR_pos: "0 < SECONDS_PER_YEAR"
  by (simp add: SECONDS_PER_YEAR_def)

lemma dt_years_le_boundary:
  assumes "dt_seconds_of ext e nxt s \<le> max_seconds_of e nxt s"
  shows "time_years s + dt_years_of ext e nxt s \<le> nxt"
    "time_years s + dt_years_of ext e nxt s \<le> e"
proof -
  let ?m = "min (e - time_years s) (nxt - time_years s)"
  have "dt_seconds_of ext e nxt s \<le> ?m * SECONDS_PER_YEAR"
    using assms by (simp add: max_seconds_of_def Let_def)
  then have "dt_seconds_of ext e nxt s / SECONDS_PER_YEAR \<le> ?m"
    by (simp only: pos_divide_le_eq [OF SECONDS_PER_YEAR_pos])
  then have d: "dt_years_of ext e nxt s \<le> ?m" by (simp add: dt_years_of_def)
  from d show "time_years s + dt_years_of ext e nxt s \<le> nxt" by simp
  from d show "time_years s + dt_years_of ext e nxt s \<le> e" by simp
qed

text \<open>
  \<^bold>\<open>C2.\<close> The code at a concrete input. On the concrete model, with the update
  callback that uses the whole window, \<open>run_for_years(10000)\<close> makes one turn, which
  reaches the boundary at 10000 years and fires checkpoint 1. The time passed to that
  call is 0, the clock before the turn; the clock after the turn is 10000. In general
  the call of a turn started in \<open>s\<close> carries \<open>time_years s\<close>, by the lemma
  \<open>step_Inr\<close>.
\<close>

theorem C2_checkpoint_sees_time_before_step:
  "run_for_years ext0 10000 0 1 model0 = Returned stepped0
   \<and> checkpoints stepped0 = [(0, 0), (1, 0)]
   \<and> time_years stepped0 = 10000"
proof -
  have "checkpoints stepped0 = [(0, 0), (1, 0)]" "time_years stepped0 = 10000"
    by (simp_all add: stepped0_def started0_def)
  with run0 show ?thesis by simp
qed

text \<open>
  In exact arithmetic the loop keeps its schedule: a completed turn started with the
  pending boundary \<open>nxt\<close> ends at \<open>time_years + dt_years \<le> nxt\<close>, and the schedule
  \<open>cadence\<close> (before \<open>_startup\<close> no checkpoint is numbered; afterwards the boundary
  is the checkpoint number, at least 1, times \<open>checkpoint_interval\<close>) holds for the
  constructor's state under any interval and is kept by every call of
  \<open>run_for_years\<close> and by every completed turn. This is a fact about \<open>step\<close>, whose
  times are exact reals; the doubles of the source behave differently, as the next
  theorem shows.
\<close>

lemma exact_arithmetic_keeps_boundary:
  "(next_checkpoint_years s = Some nxt \<and> step ext end_years sigma s = Inr s' \<longrightarrow>
      time_years s' = time_years s + dt_years_of ext end_years nxt s
      \<and> time_years s' \<le> nxt)
   \<and> (cadence s \<longrightarrow>
        cadence (outcome_state (run_for_years ext years sigma fuel s))
        \<and> checkpoint_interval (outcome_state (run_for_years ext years sigma fuel s))
            = checkpoint_interval s)
   \<and> (on_schedule s \<and> after_steps ext end_years sigma n s = Some s2 \<longrightarrow>
        1 \<le> checkpoint_number s2
        \<and> next_checkpoint_years s2
            = Some (real (checkpoint_number s2) * checkpoint_interval s))
   \<and> cadence ((LinkageModel_init u b w)\<lparr>checkpoint_interval := c\<rparr>)"
proof (intro conjI impI)
  assume a: "next_checkpoint_years s = Some nxt \<and> step ext end_years sigma s = Inr s'"
  then have nx: "next_checkpoint_years s = Some nxt"
    and st: "step ext end_years sigma s = Inr s'" by simp_all
  show t: "time_years s' = time_years s + dt_years_of ext end_years nxt s"
    by (rule step_Inr(2) [OF nx st])
  show "time_years s' \<le> nxt"
    unfolding t by (rule dt_years_le_boundary(1) [OF step_Inr(1) [OF nx st]])
next
  assume "cadence s"
  then show "cadence (outcome_state (run_for_years ext years sigma fuel s))"
    by (rule cadence_run)
  show "checkpoint_interval (outcome_state (run_for_years ext years sigma fuel s))
      = checkpoint_interval s"
    by (rule interval_run)
next
  assume a: "on_schedule s \<and> after_steps ext end_years sigma n s = Some s2"
  let ?P = "\<lambda>x. on_schedule x \<and> checkpoint_interval x = checkpoint_interval s"
  have "?P s2"
  proof (rule after_steps_invariant [where P = ?P and s = s])
    show "?P s" using a by simp
    show "after_steps ext end_years sigma n s = Some s2" using a by simp
    fix x x' assume p: "?P x" and st: "step ext end_years sigma x = Inr x'"
    from step_Inr_next [OF st] obtain nxt where nx: "next_checkpoint_years x = Some nxt" ..
    show "?P x'"
      using p on_schedule_step_Inr [OF _ st] step_Inr(3) [OF nx st] by simp
  qed
  then show "1 \<le> checkpoint_number s2"
    "next_checkpoint_years s2 = Some (real (checkpoint_number s2) * checkpoint_interval s)"
    by (simp_all add: on_schedule_def)
next
  show "cadence ((LinkageModel_init u b w)\<lparr>checkpoint_interval := c\<rparr>)"
    by (simp add: cadence_def LinkageModel_init_def)
qed

text \<open>With the identity for the rounding, \<open>bookkeeping_turn\<close> is \<open>step\<close> on the
  three members of the schedule.\<close>

lemma step_bookkeeping:
  assumes nx: "next_checkpoint_years s = Some nxt" and st: "step ext end_years sigma s = Inr s'"
  shows "\<exists>nxt'. next_checkpoint_years s' = Some nxt'
     \<and> bookkeeping_turn (\<lambda>x. x) end_years (checkpoint_interval s)
          (\<lambda>b m. fst (update_function ext s m)) (bookkeeping_of nxt s)
        = Inr (bookkeeping_of nxt' s')"
proof -
  note f = step_Inr(1,2,6,7) [OF nx st]
  have ms: "min (end_years - time_years s) (nxt - time_years s) * SECONDS_PER_YEAR
      = max_seconds_of end_years nxt s"
    by (simp add: max_seconds_of_def Let_def)
  show ?thesis
    using f(1)
    by (simp add: bookkeeping_turn_def bookkeeping_of_def Let_def ms f(2,3,4)
        dt_years_of_def dt_seconds_of_def)
qed

lemma bits_numeral [simp]:
  "bits 0 = 0" "bits (Suc 0) = Suc 0"
  "bits (numeral k) = Suc (bits (numeral k div 2))"
  by (simp_all add: bits.simps)

lemmas double_defs = double_def binade_def pow2_def round_half_even_def Let_def

lemma double_tenth: "double (1 / 10) = 3602879701896397 / 2 ^ 55"
  by (simp add: double_defs)

lemma overshoot_turn1:
  "bookkeeping_turn double 10000 10000 slow_then_full
     \<lparr>bk_time_years = 0, bk_next_checkpoint_years = 10000, bk_checkpoint_number = 1\<rparr>
   = Inr \<lparr>bk_time_years = 5578445600081177 / 2 ^ 41, bk_next_checkpoint_years = 10000,
          bk_checkpoint_number = 1\<rparr>"
  by (simp add: bookkeeping_turn_def slow_then_full_def SECONDS_PER_YEAR_def double_defs)

lemma overshoot_turn2:
  "bookkeeping_turn double 10000 10000 slow_then_full
     \<lparr>bk_time_years = 5578445600081177 / 2 ^ 41, bk_next_checkpoint_years = 10000,
      bk_checkpoint_number = 1\<rparr>
   = Inr \<lparr>bk_time_years = 10000 + 1 / 2 ^ 39, bk_next_checkpoint_years = 20000,
          bk_checkpoint_number = 2\<rparr>"
  by (simp add: bookkeeping_turn_def slow_then_full_def SECONDS_PER_YEAR_def double_defs)

lemma tenth_turn1:
  "bookkeeping_turn double 1 (3602879701896397 / 2 ^ 55) full_window
     \<lparr>bk_time_years = 0, bk_next_checkpoint_years = 3602879701896397 / 2 ^ 55,
      bk_checkpoint_number = 1\<rparr>
   = Inr \<lparr>bk_time_years = 3602879701896397 / 2 ^ 55,
          bk_next_checkpoint_years = 3602879701896397 / 2 ^ 54,
          bk_checkpoint_number = 2\<rparr>"
  by (simp add: bookkeeping_turn_def full_window_def SECONDS_PER_YEAR_def double_defs)

lemma tenth_turn2:
  "bookkeeping_turn double 1 (3602879701896397 / 2 ^ 55) full_window
     \<lparr>bk_time_years = 3602879701896397 / 2 ^ 55,
      bk_next_checkpoint_years = 3602879701896397 / 2 ^ 54,
      bk_checkpoint_number = 2\<rparr>
   = Inr \<lparr>bk_time_years = 3602879701896397 / 2 ^ 54,
          bk_next_checkpoint_years = 1351079888211149 / 2 ^ 52,
          bk_checkpoint_number = 3\<rparr>"
  by (simp add: bookkeeping_turn_def full_window_def SECONDS_PER_YEAR_def double_defs)

text \<open>
  \<^bold>\<open>C4.\<close> The code at two concrete inputs, in double arithmetic. First: the
  default interval 10000, a started object at time 0 with the boundary 10000, the call
  \<open>run_for_years(10000)\<close>, and an update callback that returns \<open>8e10\<close> seconds in
  the first turn and \<open>max_seconds\<close> afterwards. The first turn ends at
  2536.783358701167 years. The second turn is handed the ceiling 235360000000.00003
  seconds, passes the assertion, fires the checkpoint and ends at
  \<open>10000 + 2\<^sup>-\<^sup>3\<^sup>9\<close> years, beyond the boundary 10000 that was pending in it.
  Second: the interval \<open>0.1\<close> (the double nearest to one tenth), the call
  \<open>run_for_years(1)\<close> and the callback that always uses the whole window. After two
  turns the boundary is 0.30000000000000004, which lies strictly between three and four
  times the interval, so it is no integer multiple of it.
\<close>

theorem C4_rounding_overshoots_boundary:
  "bookkeeping_turn double 10000 10000 slow_then_full
     \<lparr>bk_time_years = 0, bk_next_checkpoint_years = 10000, bk_checkpoint_number = 1\<rparr>
   = Inr \<lparr>bk_time_years = 5578445600081177 / 2 ^ 41, bk_next_checkpoint_years = 10000,
          bk_checkpoint_number = 1\<rparr>
   \<and> bookkeeping_turn double 10000 10000 slow_then_full
       \<lparr>bk_time_years = 5578445600081177 / 2 ^ 41, bk_next_checkpoint_years = 10000,
        bk_checkpoint_number = 1\<rparr>
     = Inr \<lparr>bk_time_years = 10000 + 1 / 2 ^ 39, bk_next_checkpoint_years = 20000,
            bk_checkpoint_number = 2\<rparr>
   \<and> (10000 :: real) < 10000 + 1 / 2 ^ 39
   \<and> double (1 / 10) = 3602879701896397 / 2 ^ 55
   \<and> bookkeeping_turn double 1 (double (1 / 10)) full_window
       \<lparr>bk_time_years = 0, bk_next_checkpoint_years = double (1 / 10),
        bk_checkpoint_number = 1\<rparr>
     = Inr \<lparr>bk_time_years = 3602879701896397 / 2 ^ 55,
            bk_next_checkpoint_years = 3602879701896397 / 2 ^ 54,
            bk_checkpoint_number = 2\<rparr>
   \<and> bookkeeping_turn double 1 (double (1 / 10)) full_window
       \<lparr>bk_time_years = 3602879701896397 / 2 ^ 55,
        bk_next_checkpoint_years = 3602879701896397 / 2 ^ 54,
        bk_checkpoint_number = 2\<rparr>
     = Inr \<lparr>bk_time_years = 3602879701896397 / 2 ^ 54,
            bk_next_checkpoint_years = 1351079888211149 / 2 ^ 52,
            bk_checkpoint_number = 3\<rparr>
   \<and> 3 * double (1 / 10) < 1351079888211149 / 2 ^ 52
   \<and> 1351079888211149 / 2 ^ 52 < 4 * double (1 / 10)"
proof -
  have lt: "(10000 :: real) < 10000 + 1 / 2 ^ 39" by simp
  have between: "3 * (3602879701896397 / 2 ^ 55) < (1351079888211149 / 2 ^ 52 :: real)"
    "(1351079888211149 / 2 ^ 52 :: real) < 4 * (3602879701896397 / 2 ^ 55)"
    by simp_all
  show ?thesis
    unfolding double_tenth
    using overshoot_turn1 overshoot_turn2 lt tenth_turn1 tenth_turn2 between
    by (intro conjI) (assumption | rule refl)+
qed

subsection \<open>An update callback that overruns its window\<close>

text \<open>
  \<^bold>\<open>C7.\<close> If the update callback returns more than the requested \<open>max_seconds\<close>,
  the turn raises the assertion error that carries the requested and the returned
  value, and the loop stops with it. The object it leaves differs from the object at
  the start of the turn only in what the callback itself changed (the Underworld state
  and the hidden state): clock, checkpoint number, boundary, tracers, the Badlands
  model with its table \<open>T_disp\<close>, and the trace of checkpoint calls are as before.
\<close>

theorem C7_overrun_halts_before_any_mutation:
  "next_checkpoint_years s = Some nxt
   \<and> max_seconds_of end_years nxt s < dt_seconds_of ext end_years nxt s \<longrightarrow>
     step ext end_years sigma s =
       Inl (AssertionError_dt (max_seconds_of end_years nxt s) (dt_seconds_of ext end_years nxt s),
            after_update ext s (max_seconds_of end_years nxt s))
     \<and> (time_years s < end_years \<longrightarrow>
          run_loop ext end_years sigma (Suc fuel) s =
            Raised (AssertionError_dt (max_seconds_of end_years nxt s)
                      (dt_seconds_of ext end_years nxt s))
              (after_update ext s (max_seconds_of end_years nxt s)))
     \<and> time_years (after_update ext s (max_seconds_of end_years nxt s)) = time_years s
     \<and> checkpoint_number (after_update ext s (max_seconds_of end_years nxt s))
         = checkpoint_number s
     \<and> next_checkpoint_years (after_update ext s (max_seconds_of end_years nxt s))
         = next_checkpoint_years s
     \<and> surface_tracers (after_update ext s (max_seconds_of end_years nxt s))
         = surface_tracers s
     \<and> badlands_model (after_update ext s (max_seconds_of end_years nxt s))
         = badlands_model s
     \<and> disp_inserted (after_update ext s (max_seconds_of end_years nxt s)) = disp_inserted s
     \<and> checkpoints (after_update ext s (max_seconds_of end_years nxt s)) = checkpoints s"
proof (intro impI)
  assume a: "next_checkpoint_years s = Some nxt
    \<and> max_seconds_of end_years nxt s < dt_seconds_of ext end_years nxt s"
  then have nx: "next_checkpoint_years s = Some nxt"
    and over: "\<not> dt_seconds_of ext end_years nxt s \<le> max_seconds_of end_years nxt s"
    by simp_all
  have st: "step ext end_years sigma s =
       Inl (AssertionError_dt (max_seconds_of end_years nxt s) (dt_seconds_of ext end_years nxt s),
            after_update ext s (max_seconds_of end_years nxt s))"
    unfolding step_unfold [OF nx] using over by simp
  show "step ext end_years sigma s =
       Inl (AssertionError_dt (max_seconds_of end_years nxt s) (dt_seconds_of ext end_years nxt s),
            after_update ext s (max_seconds_of end_years nxt s))
     \<and> (time_years s < end_years \<longrightarrow>
          run_loop ext end_years sigma (Suc fuel) s =
            Raised (AssertionError_dt (max_seconds_of end_years nxt s)
                      (dt_seconds_of ext end_years nxt s))
              (after_update ext s (max_seconds_of end_years nxt s)))
     \<and> time_years (after_update ext s (max_seconds_of end_years nxt s)) = time_years s
     \<and> checkpoint_number (after_update ext s (max_seconds_of end_years nxt s))
         = checkpoint_number s
     \<and> next_checkpoint_years (after_update ext s (max_seconds_of end_years nxt s))
         = next_checkpoint_years s
     \<and> surface_tracers (after_update ext s (max_seconds_of end_years nxt s))
         = surface_tracers s
     \<and> badlands_model (after_update ext s (max_seconds_of end_years nxt s))
         = badlands_model s
     \<and> disp_inserted (after_update ext s (max_seconds_of end_years nxt s)) = disp_inserted s
     \<and> checkpoints (after_update ext s (max_seconds_of end_years nxt s)) = checkpoints s"
    by (simp add: st after_update_fields)
qed

theorem C7_witness:
  "next_checkpoint_years started0 = Some 10000
   \<and> max_seconds_of 10000 10000 started0 < dt_seconds_of ext_over 10000 10000 started0
   \<and> time_years started0 < 10000
   \<and> after_update ext_over started0 315360000000 = started0
   \<and> step ext_over 10000 0 started0
       = Inl (AssertionError_dt 315360000000 315360000001, started0)
   \<and> run_loop ext_over 10000 0 (Suc 0) started0
       = Raised (AssertionError_dt 315360000000 315360000001) started0"
proof -
  have nx: "next_checkpoint_years started0 = Some 10000" by (simp add: started0_def)
  have over: "max_seconds_of 10000 10000 started0 < dt_seconds_of ext_over 10000 10000 started0"
    by (simp add: seconds0)
  have t: "time_years started0 < 10000" by (simp add: started0_def)
  have au: "after_update ext_over started0 315360000000 = started0"
    by (simp add: after_update_def ext_over_def ext0_def started0_def)
  note a = C7_overrun_halts_before_any_mutation [where s = started0 and nxt = 10000
      and end_years = 10000 and ext = ext_over and sigma = 0 and fuel = 0]
  show ?thesis
    using nx over t au a by (simp add: seconds0)
qed

subsection \<open>The advance of the clock\<close>

text \<open>
  \<^bold>\<open>C8.\<close> After a completed turn of the loop the clock is the clock before plus
  \<open>dt_seconds / SECONDS_PER_YEAR\<close>, where \<open>dt_seconds\<close> is what the update callback
  returned. The injection of that turn still read the old clock (the first row of
  \<open>T_disp\<close> starts at it), so the clock is written once, at the end of the turn; a
  turn that raises does not write it.
\<close>

theorem C8_clock_advances_by_returned_dt:
  "(next_checkpoint_years s = Some nxt \<and> step ext end_years sigma s = Inr s' \<longrightarrow>
      time_years s' =
        time_years s
          + fst (update_function ext s (max_seconds_of end_years nxt s)) / SECONDS_PER_YEAR
      \<and> hd (T_disp (badlands_model s')) =
          (time_years s,
           time_years s
             + fst (update_function ext s (max_seconds_of end_years nxt s)) / SECONDS_PER_YEAR))
   \<and> (step ext end_years sigma s = Inl (err, s') \<longrightarrow> time_years s' = time_years s)"
proof (intro conjI impI)
  assume a: "next_checkpoint_years s = Some nxt \<and> step ext end_years sigma s = Inr s'"
  then have nx: "next_checkpoint_years s = Some nxt"
    and st: "step ext end_years sigma s = Inr s'" by simp_all
  show "time_years s' =
        time_years s
          + fst (update_function ext s (max_seconds_of end_years nxt s)) / SECONDS_PER_YEAR"
    using step_Inr(2) [OF nx st] by (simp add: dt_years_of_def dt_seconds_of_def)
  show "hd (T_disp (badlands_model s')) =
          (time_years s,
           time_years s
             + fst (update_function ext s (max_seconds_of end_years nxt s)) / SECONDS_PER_YEAR)"
    using step_Inr(9) [OF nx st] by (simp add: rows_after_def dt_years_of_def dt_seconds_of_def)
next
  assume "step ext end_years sigma s = Inl (err, s')"
  then show "time_years s' = time_years s" by (rule step_Inl(1))
qed

theorem C8_witness:
  "next_checkpoint_years started0 = Some 10000
   \<and> step ext_half 10000 0 started0 = Inr halfway0
   \<and> fst (update_function ext_half started0 (max_seconds_of 10000 10000 started0)) = 157680000000
   \<and> max_seconds_of 10000 10000 started0 = 315360000000
   \<and> time_years started0 = 0
   \<and> time_years halfway0 = 157680000000 / SECONDS_PER_YEAR
   \<and> time_years halfway0 = 5000"
proof -
  have nx: "next_checkpoint_years started0 = Some 10000" and t0: "time_years started0 = 0"
    by (simp_all add: started0_def)
  have d: "fst (update_function ext_half started0 (max_seconds_of 10000 10000 started0))
      = 157680000000"
    using seconds0(3) by (simp add: dt_seconds_of_def)
  note a = C8_clock_advances_by_returned_dt [where s = started0 and nxt = 10000
      and ext = ext_half and end_years = 10000 and sigma = 0 and s' = halfway0
      and err = IndexError]
  from a nx step_half0 have "time_years halfway0 =
      time_years started0
        + fst (update_function ext_half started0 (max_seconds_of 10000 10000 started0))
            / SECONDS_PER_YEAR"
    by blast
  then have t: "time_years halfway0 = 157680000000 / SECONDS_PER_YEAR"
    by (simp only: d t0 add_0_left)
  have t5: "time_years halfway0 = 5000" by (simp add: halfway0_def)
  show ?thesis
    using nx step_half0 d seconds0(1) t0 t t5 by simp
qed

subsection \<open>Injection without smoothing\<close>

lemma without_gaussian_filter:
  "determine_particle_state (ext\<lparr>gaussian_filter := g\<rparr>) s = determine_particle_state ext s"
  "update_material_types (ext\<lparr>gaussian_filter := g\<rparr>) s = update_material_types ext s"
  "after_update (ext\<lparr>gaussian_filter := g\<rparr>) s m = after_update ext s m"
  "call_run_to_time (ext\<lparr>gaussian_filter := g\<rparr>) t s = call_run_to_time ext t s"
  "call_checkpoint_function (ext\<lparr>gaussian_filter := g\<rparr>) s = call_checkpoint_function ext s"
  "update_function (ext\<lparr>gaussian_filter := g\<rparr>) = update_function ext"
  "integrate (ext\<lparr>gaussian_filter := g\<rparr>) = integrate ext"
  by (simp_all add: determine_particle_state_def update_material_types_def after_update_def
      call_run_to_time_def call_checkpoint_function_def)

lemma step_without_gaussian_filter:
  "step (ext\<lparr>gaussian_filter := g\<rparr>) end_years 0 s = step ext end_years 0 s"
  unfolding step_def without_gaussian_filter simp_thms if_True by (rule TrueI)

text \<open>
  \<^bold>\<open>C9.\<close> After a completed turn of the loop with \<open>sigma = 0\<close>, the field
  \<open>injected_disps\<close> is the displacement computed from the velocity at the advected
  tracers, \<open>velocity * SECONDS_PER_YEAR * dt_years\<close> entry by entry, unchanged; and a
  turn with \<open>sigma = 0\<close> does not depend on the smoothing filter at all.
\<close>

theorem C9_sigma_zero_injects_unmodified:
  "(next_checkpoint_years s = Some nxt \<and> step ext end_years 0 s = Inr s' \<longrightarrow>
      injected_disps (badlands_model s') =
        map (scale_disp (dt_years_of ext end_years nxt s))
          (map (velocity_field (uw (advected ext end_years nxt s)))
             (surface_tracers (advected ext end_years nxt s))))
   \<and> step (ext\<lparr>gaussian_filter := g\<rparr>) end_years 0 s = step ext end_years 0 s"
proof (intro conjI impI)
  assume a: "next_checkpoint_years s = Some nxt \<and> step ext end_years 0 s = Inr s'"
  then have nx: "next_checkpoint_years s = Some nxt"
    and st: "step ext end_years 0 s = Inr s'" by simp_all
  show "injected_disps (badlands_model s') =
        map (scale_disp (dt_years_of ext end_years nxt s))
          (map (velocity_field (uw (advected ext end_years nxt s)))
             (surface_tracers (advected ext end_years nxt s)))"
    using step_Inr(11) [OF nx st] by (simp add: tracer_disp_of_def)
next
  show "step (ext\<lparr>gaussian_filter := g\<rparr>) end_years 0 s = step ext end_years 0 s"
    by (rule step_without_gaussian_filter)
qed

theorem C9_witness:
  "next_checkpoint_years started0 = Some 10000
   \<and> step ext0 10000 0 started0 = Inr stepped0
   \<and> dt_years_of ext0 10000 10000 started0 = 10000
   \<and> surface_tracers (advected ext0 10000 10000 started0)
       = [(0, 0, 0), (1, 0, 0), (0, 1, 0), (1, 1, 0)]
   \<and> velocity_field (uw (advected ext0 10000 10000 started0)) (0, 0, 0) = (0, 0, 1)
   \<and> scale_disp 10000 (0, 0, 1) = (0, 0, 315360000000)
   \<and> injected_disps (badlands_model stepped0)
       = [(0, 0, 315360000000), (0, 0, 315360000000),
          (0, 0, 315360000000), (0, 0, 315360000000)]"
proof -
  have nx: "next_checkpoint_years started0 = Some 10000" by (simp add: started0_def)
  have dy: "dt_years_of ext0 10000 10000 started0 = 10000"
    by (simp add: dt_years_of_def seconds0 SECONDS_PER_YEAR_def)
  have tr: "surface_tracers (advected ext0 10000 10000 started0)
       = [(0, 0, 0), (1, 0, 0), (0, 1, 0), (1, 1, 0)]"
    "velocity_field (uw (advected ext0 10000 10000 started0)) (0, 0, 0) = (0, 0, 1)"
    by (simp_all add: advected_def after_update_def Let_def ext0_def started0_def uw0_def)
  have sc: "scale_disp 10000 (0, 0, 1) = (0, 0, 315360000000)"
    by (simp add: scale_disp_def SECONDS_PER_YEAR_def)
  have inj: "injected_disps (badlands_model stepped0)
       = [(0, 0, 315360000000), (0, 0, 315360000000),
          (0, 0, 315360000000), (0, 0, 315360000000)]"
    by (simp add: stepped0_def started0_def)
  note a = C9_sigma_zero_injects_unmodified [where s = started0 and nxt = 10000
      and ext = ext0 and end_years = 10000 and s' = stepped0 and g = "\<lambda>a sg. []"]
  from a nx step0 have u: "injected_disps (badlands_model stepped0) =
        map (scale_disp (dt_years_of ext0 10000 10000 started0))
          (map (velocity_field (uw (advected ext0 10000 10000 started0)))
             (surface_tracers (advected ext0 10000 10000 started0)))"
    by blast
  show ?thesis
    using nx step0 dy tr sc inj u by simp
qed

end
